theory Spec2Isabelle
  imports Complex_Main "HOL-Library.AList"
begin

section \<open>The browser-automation framework as seen by the page objects\<close>

text \<open>
  The page and component objects of the repository are thin wrappers over the locator API
  of the test framework. The framework is not part of the repository, so the browser is a
  parameter of every operation: what a locator matches on the current document, whether an
  action can be carried out on it, and how the document reacts. The framework's own contract
  is written out once, in the primitives below:
  \<^item> building a locator (\<open>getByTestId\<close>, \<open>locator\<close>, \<open>or\<close>, \<open>first\<close>, \<open>filter\<close>) only describes a
    query; nothing is looked up;
  \<^item> \<open>count()\<close> looks the locator up and never fails;
  \<^item> \<open>click\<close>, \<open>fill\<close>, \<open>selectOption\<close>, \<open>check\<close>, \<open>textContent\<close> need exactly one matching
    element: with none they end in a timeout, with several in a strictness violation;
  \<^item> \<open>isVisible()\<close> answers \<open>false\<close> for no match and is strict as well;
  \<^item> the page-level shortcuts \<open>page.fill(selector, ...)\<close> and \<open>page.click(selector)\<close> act on
    the first match and time out with none; \<open>page.keyboard.press\<close>, \<open>page.goto\<close> and
    \<open>request.post\<close> have no locator;
  \<^item> an action on a matched element can still be refused, with whatever error the framework
    raises for it (a timeout for an element that stays hidden or disabled, a plain error for
    \<open>fill\<close> on an element that takes no text, and so on);
  \<^item> a selector is parsed when it is first looked up, and a malformed one makes that call
    raise. The selectors written out in the source are well formed, so the parse is modelled
    where the source assembles a selector from a caller's string; the same goes for the
    language's \<open>new RegExp(pattern, flags)\<close>, which raises a \<open>SyntaxError\<close> for a malformed
    pattern.

  A number of the source language is a double: not a number, one of the two infinities, or
  finite, and then given by its value (\<open>Finite q\<close> stands for the double whose value is \<open>q\<close>;
  both zeros are \<open>Finite 0\<close>).
\<close>

datatype Page = Page nat

datatype pattern = Text string | RegExp string string

datatype locator =
    GetByTestId string
  | Locator string
  | GetByRole string "pattern option"
  | GetByPlaceholder pattern
  | GetByText pattern
  | GetByLabel pattern
  | Or locator locator
  | First locator
  | Nth locator nat
  | FilterHasText locator pattern
  | Within locator locator

datatype number = NaN | Infinity | NegInfinity | Finite rat

datatype json =
    JNull
  | JBool bool
  | JNum number
  | JStr string
  | JArr "json list"
  | JObj "(string \<times> json) list"

datatype action =
    Click locator
  | Fill locator string
  | FillNumber locator number
  | SelectOption locator string
  | Check locator
  | ScrollIntoView locator
  | Press string
  | Goto string
  | Post string json

datatype error =
    Error string
  | TypeError string
  | AssertionError string
  | SyntaxError string
  | TimeoutError
  | StrictModeViolation

record element =
  el_text :: string
  el_visible :: bool

record 's browser =
  matches :: "'s \<Rightarrow> locator \<Rightarrow> element list"
  refuses :: "'s \<Rightarrow> action \<Rightarrow> error option"
  react :: "'s \<Rightarrow> action \<Rightarrow> 's"
  parse_selector :: "string \<Rightarrow> error option"
  parse_regexp :: "string \<Rightarrow> string \<Rightarrow> error option"

text \<open>
  The world an operation runs in: the document of the page, the user-facing actions carried
  out on it so far, the locators resolved so far, the objects created with \<open>new\<close>, and the
  console output.
\<close>

record 's world =
  doc :: 's
  actions :: "action list"
  resolved :: "locator list"
  instances :: "string list"
  console :: "string list"

type_synonym ('s, 'a) io = "'s world \<Rightarrow> (error + 'a) \<times> 's world"

definition ret :: "'a \<Rightarrow> ('s, 'a) io" where
  "ret x = (\<lambda>w. (Inr x, w))"

definition throw :: "error \<Rightarrow> ('s, 'a) io" where
  "throw e = (\<lambda>w. (Inl e, w))"

definition await :: "('s, 'a) io \<Rightarrow> ('a \<Rightarrow> ('s, 'b) io) \<Rightarrow> ('s, 'b) io" where
  "await m f = (\<lambda>w. case m w of (Inl e, w') \<Rightarrow> (Inl e, w') | (Inr x, w') \<Rightarrow> f x w')"

definition catch :: "('s, 'a) io \<Rightarrow> (error \<Rightarrow> 'a) \<Rightarrow> ('s, 'a) io" where
  "catch m h = (\<lambda>w. case m w of (Inl e, w') \<Rightarrow> (Inr (h e), w') | (Inr x, w') \<Rightarrow> (Inr x, w'))"

definition lookup :: "'s browser \<Rightarrow> locator \<Rightarrow> ('s, element list) io" where
  "lookup B l = (\<lambda>w. (Inr (matches B (doc w) l), w\<lparr>resolved := resolved w @ [l]\<rparr>))"

definition perform :: "'s browser \<Rightarrow> action \<Rightarrow> ('s, unit) io" where
  "perform B a = (\<lambda>w.
     case refuses B (doc w) a of
       None \<Rightarrow> (Inr (), w\<lparr>doc := react B (doc w) a, actions := actions w @ [a]\<rparr>)
     | Some e \<Rightarrow> (Inl e, w))"

definition strict :: "'s browser \<Rightarrow> locator \<Rightarrow> (element \<Rightarrow> ('s, 'a) io) \<Rightarrow> ('s, 'a) io" where
  "strict B l k = await (lookup B l) (\<lambda>es.
     case es of
       [] \<Rightarrow> throw TimeoutError
     | [e] \<Rightarrow> k e
     | _ \<Rightarrow> throw StrictModeViolation)"

definition loc_count :: "'s browser \<Rightarrow> locator \<Rightarrow> ('s, nat) io" where
  "loc_count B l = await (lookup B l) (\<lambda>es. ret (length es))"

definition loc_click :: "'s browser \<Rightarrow> locator \<Rightarrow> ('s, unit) io" where
  "loc_click B l = strict B l (\<lambda>e. perform B (Click l))"

definition loc_fill :: "'s browser \<Rightarrow> locator \<Rightarrow> string \<Rightarrow> ('s, unit) io" where
  "loc_fill B l v = strict B l (\<lambda>e. perform B (Fill l v))"

text \<open>\<open>fill(n.toString())\<close> for a number \<open>n\<close>: the text typed is the rendering of \<open>n\<close>.\<close>

definition loc_fill_number :: "'s browser \<Rightarrow> locator \<Rightarrow> number \<Rightarrow> ('s, unit) io" where
  "loc_fill_number B l n = strict B l (\<lambda>e. perform B (FillNumber l n))"

definition loc_selectOption :: "'s browser \<Rightarrow> locator \<Rightarrow> string \<Rightarrow> ('s, unit) io" where
  "loc_selectOption B l v = strict B l (\<lambda>e. perform B (SelectOption l v))"

definition loc_check :: "'s browser \<Rightarrow> locator \<Rightarrow> ('s, unit) io" where
  "loc_check B l = strict B l (\<lambda>e. perform B (Check l))"

definition loc_scrollIntoViewIfNeeded :: "'s browser \<Rightarrow> locator \<Rightarrow> ('s, unit) io" where
  "loc_scrollIntoViewIfNeeded B l = strict B l (\<lambda>e. perform B (ScrollIntoView l))"

definition loc_textContent :: "'s browser \<Rightarrow> locator \<Rightarrow> ('s, string) io" where
  "loc_textContent B l = strict B l (\<lambda>e. ret (el_text e))"

definition loc_isVisible :: "'s browser \<Rightarrow> locator \<Rightarrow> ('s, bool) io" where
  "loc_isVisible B l = await (lookup B l) (\<lambda>es.
     case es of
       [] \<Rightarrow> ret False
     | [e] \<Rightarrow> ret (el_visible e)
     | _ \<Rightarrow> throw StrictModeViolation)"

definition keyboard_press :: "'s browser \<Rightarrow> string \<Rightarrow> ('s, unit) io" where
  "keyboard_press B k = perform B (Press k)"

definition page_goto :: "'s browser \<Rightarrow> string \<Rightarrow> ('s, unit) io" where
  "page_goto B url = perform B (Goto url)"

definition first_match ::
  "'s browser \<Rightarrow> locator \<Rightarrow> (element \<Rightarrow> ('s, 'a) io) \<Rightarrow> ('s, 'a) io" where
  "first_match B l k = await (lookup B l) (\<lambda>es.
     case es of
       [] \<Rightarrow> throw TimeoutError
     | e # _ \<Rightarrow> k e)"

definition page_fill :: "'s browser \<Rightarrow> string \<Rightarrow> string \<Rightarrow> ('s, unit) io" where
  "page_fill B sel v = first_match B (Locator sel) (\<lambda>e. perform B (Fill (Locator sel) v))"

definition page_click :: "'s browser \<Rightarrow> string \<Rightarrow> ('s, unit) io" where
  "page_click B sel = first_match B (Locator sel) (\<lambda>e. perform B (Click (Locator sel)))"

definition request_post :: "'s browser \<Rightarrow> string \<Rightarrow> json \<Rightarrow> ('s, unit) io" where
  "request_post B url data = perform B (Post url data)"

definition console_log :: "string \<Rightarrow> ('s, unit) io" where
  "console_log s = (\<lambda>w. (Inr (), w\<lparr>console := console w @ [s]\<rparr>))"

text \<open>A framework call on a selector assembled at run time: the selector is parsed first.\<close>

definition parsed :: "'s browser \<Rightarrow> string \<Rightarrow> ('s, 'a) io \<Rightarrow> ('s, 'a) io" where
  "parsed B sel m = (case parse_selector B sel of None \<Rightarrow> m | Some e \<Rightarrow> throw e)"

definition new_RegExp :: "'s browser \<Rightarrow> string \<Rightarrow> string \<Rightarrow> ('s, pattern) io" where
  "new_RegExp B p flags =
     (case parse_regexp B p flags of None \<Rightarrow> ret (RegExp p flags) | Some e \<Rightarrow> throw e)"

definition alloc :: "string \<Rightarrow> ('s, unit) io" where
  "alloc c = (\<lambda>w. (Inr (), w\<lparr>instances := instances w @ [c]\<rparr>))"


section \<open>Component objects\<close>

subsection \<open>HeaderComponent (src/components/HeaderComponent.js)\<close>

record HeaderComponent =
  page :: Page
  logo :: locator
  searchInput :: locator
  userMenu :: locator
  logoutBtn :: locator
  navigationLinks :: locator

definition HeaderComponent_constructor :: "Page \<Rightarrow> ('s, HeaderComponent) io" where
  \<open>HeaderComponent_constructor pg = ret
     \<lparr> page = pg,
       logo = Or (GetByTestId ''logo'')
                 (First (Within (Locator ''header'') (GetByRole ''link'' None))),
       searchInput = Or (GetByTestId ''search'')
                        (Or (Locator ''input[type="search"]'')
                            (GetByPlaceholder (Text ''Search''))),
       userMenu = Or (GetByTestId ''user-menu'') (Locator ''[data-testid="user-menu"]''),
       logoutBtn = Or (GetByTestId ''logout'')
                      (GetByRole ''button'' (Some (RegExp ''logout'' ''i''))),
       navigationLinks = Locator ''header nav a'' \<rparr>\<close>

definition new_HeaderComponent :: "Page \<Rightarrow> ('s, HeaderComponent) io" where
  "new_HeaderComponent pg =
     await (alloc ''HeaderComponent'') (\<lambda>_. HeaderComponent_constructor pg)"

definition HeaderComponent_clickLogo :: "'s browser \<Rightarrow> HeaderComponent \<Rightarrow> ('s, unit) io" where
  "HeaderComponent_clickLogo B this = loc_click B (logo this)"

definition HeaderComponent_search ::
  "'s browser \<Rightarrow> HeaderComponent \<Rightarrow> string \<Rightarrow> ('s, unit) io" where
  "HeaderComponent_search B this query =
     await (loc_count B (searchInput this)) (\<lambda>n.
       if n > 0
       then await (loc_fill B (searchInput this) query) (\<lambda>_. keyboard_press B ''Enter'')
       else ret ())"

definition HeaderComponent_openUserMenu :: "'s browser \<Rightarrow> HeaderComponent \<Rightarrow> ('s, unit) io" where
  "HeaderComponent_openUserMenu B this =
     await (loc_count B (userMenu this)) (\<lambda>n.
       if n > 0 then loc_click B (userMenu this) else ret ())"

definition HeaderComponent_logout :: "'s browser \<Rightarrow> HeaderComponent \<Rightarrow> ('s, unit) io" where
  "HeaderComponent_logout B this =
     await (HeaderComponent_openUserMenu B this) (\<lambda>_.
       await (loc_count B (logoutBtn this)) (\<lambda>n.
         if n > 0 then loc_click B (logoutBtn this) else ret ()))"

definition HeaderComponent_navigateTo ::
  "'s browser \<Rightarrow> HeaderComponent \<Rightarrow> string \<Rightarrow> ('s, unit) io" where
  "HeaderComponent_navigateTo B this linkText =
     (let link = FilterHasText (navigationLinks this) (Text linkText) in
      await (loc_count B link) (\<lambda>n.
        if n > 0 then loc_click B link else ret ()))"

definition HeaderComponent_isVisible :: "'s browser \<Rightarrow> HeaderComponent \<Rightarrow> ('s, bool) io" where
  "HeaderComponent_isVisible B this = catch (loc_isVisible B (logo this)) (\<lambda>_. False)"


subsection \<open>FooterComponent (src/components/FooterComponent.js)\<close>

record FooterComponent =
  page :: Page
  footer :: locator
  footerLinks :: locator
  copyrightText :: locator
  socialLinks :: locator

text \<open>The copyright pattern is kept byte for byte as the source file has it.\<close>

definition copyright_pattern :: pattern where
  "copyright_pattern =
     RegExp (''copyright|'' @ [CHR 0xC3, CHR 0x82, CHR 0xC2, CHR 0xA9]) ''i''"

definition FooterComponent_constructor :: "Page \<Rightarrow> ('s, FooterComponent) io" where
  \<open>FooterComponent_constructor pg = ret
     \<lparr> FooterComponent.page = pg,
       footer = Locator ''footer'',
       footerLinks = Locator ''footer a'',
       copyrightText = Within (Locator ''footer'') (GetByText copyright_pattern),
       socialLinks = Locator ''footer [data-testid*="social"]'' \<rparr>\<close>

definition new_FooterComponent :: "Page \<Rightarrow> ('s, FooterComponent) io" where
  "new_FooterComponent pg =
     await (alloc ''FooterComponent'') (\<lambda>_. FooterComponent_constructor pg)"

definition FooterComponent_clickLink ::
  "'s browser \<Rightarrow> FooterComponent \<Rightarrow> string \<Rightarrow> ('s, unit) io" where
  "FooterComponent_clickLink B this linkText =
     (let link = FilterHasText (footerLinks this) (Text linkText) in
      await (loc_count B link) (\<lambda>n.
        if n > 0 then loc_click B link else ret ()))"

definition FooterComponent_getCopyrightText ::
  "'s browser \<Rightarrow> FooterComponent \<Rightarrow> ('s, string option) io" where
  "FooterComponent_getCopyrightText B this =
     await (loc_count B (copyrightText this)) (\<lambda>n.
       if n > 0
       then await (loc_textContent B (copyrightText this)) (\<lambda>t. ret (Some t))
       else ret None)"

definition FooterComponent_clickSocialLink ::
  "'s browser \<Rightarrow> FooterComponent \<Rightarrow> string \<Rightarrow> ('s, unit) io" where
  "FooterComponent_clickSocialLink B this platform =
     await (new_RegExp B platform ''i'') (\<lambda>re.
       let socialLink = FilterHasText (socialLinks this) re in
       await (loc_count B socialLink) (\<lambda>n.
         if n > 0 then loc_click B socialLink else ret ()))"

definition FooterComponent_isVisible :: "'s browser \<Rightarrow> FooterComponent \<Rightarrow> ('s, bool) io" where
  "FooterComponent_isVisible B this = catch (loc_isVisible B (footer this)) (\<lambda>_. False)"

text \<open>The body of the \<open>for\<close> loop of \<open>getAllLinks\<close>, run for the indices still to visit.\<close>

primrec getAllLinks_loop ::
  "'s browser \<Rightarrow> FooterComponent \<Rightarrow> nat list \<Rightarrow> string list \<Rightarrow> ('s, string list) io" where
  "getAllLinks_loop B this [] links = ret links"
| "getAllLinks_loop B this (i # is) links =
     await (loc_textContent B (Nth (footerLinks this) i)) (\<lambda>text.
       getAllLinks_loop B this is (links @ [text]))"

definition FooterComponent_getAllLinks ::
  "'s browser \<Rightarrow> FooterComponent \<Rightarrow> ('s, string list) io" where
  "FooterComponent_getAllLinks B this =
     await (loc_count B (footerLinks this)) (\<lambda>count.
       getAllLinks_loop B this [0..<count] [])"


section \<open>Page objects\<close>

subsection \<open>BasePage (src/pages/BasePage.js)\<close>

text \<open>
  A field that holds an object may be \<open>null\<close> or \<open>undefined\<close> in the source language; the two
  component fields are therefore optional values, and a method that reaches through one of
  them fails with a \<open>TypeError\<close> when it is empty.
\<close>

record BasePage =
  page :: Page
  header :: "HeaderComponent option"
  footer :: "FooterComponent option"

definition BasePage_constructor :: "Page \<Rightarrow> ('s, BasePage) io" where
  "BasePage_constructor pg =
     await (new_HeaderComponent pg) (\<lambda>h.
       await (new_FooterComponent pg) (\<lambda>f.
         ret \<lparr> BasePage.page = pg, header = Some h, footer = Some f \<rparr>))"

definition new_BasePage :: "Page \<Rightarrow> ('s, BasePage) io" where
  "new_BasePage pg = await (alloc ''BasePage'') (\<lambda>_. BasePage_constructor pg)"

definition BasePage_goto :: "'s browser \<Rightarrow> 'a BasePage_scheme \<Rightarrow> string \<Rightarrow> ('s, unit) io" where
  "BasePage_goto B this url = page_goto B url"


subsection \<open>DashboardPage (src/pages/DashboardPage.js)\<close>

record DashboardPage = BasePage +
  welcomeMessage :: locator
  statsCards :: locator
  recentActivity :: locator
  quickActions :: locator

definition DashboardPage_constructor :: "Page \<Rightarrow> ('s, DashboardPage) io" where
  \<open>DashboardPage_constructor pg =
     await (BasePage_constructor pg) (\<lambda>this.
       ret (BasePage.extend this
         (DashboardPage.fields
           (GetByText (RegExp ''welcome|dashboard'' ''i''))
           (Locator ''.stat-card, [data-testid*="stat"]'')
           (Locator ''.recent-activity, [data-testid="recent-activity"]'')
           (Locator ''.quick-actions, [data-testid="quick-actions"]''))))\<close>

definition new_DashboardPage :: "Page \<Rightarrow> ('s, DashboardPage) io" where
  "new_DashboardPage pg = await (alloc ''DashboardPage'') (\<lambda>_. DashboardPage_constructor pg)"

definition DashboardPage_navigateToTransactions ::
  "'s browser \<Rightarrow> DashboardPage \<Rightarrow> ('s, unit) io" where
  "DashboardPage_navigateToTransactions B this =
     (case header this of
        None \<Rightarrow> throw (TypeError ''header'')
      | Some h \<Rightarrow> HeaderComponent_search B h ''transactions'')"

definition DashboardPage_getWelcomeMessage ::
  "'s browser \<Rightarrow> DashboardPage \<Rightarrow> ('s, string option) io" where
  "DashboardPage_getWelcomeMessage B this =
     await (loc_count B (welcomeMessage this)) (\<lambda>n.
       if n > 0
       then await (loc_textContent B (welcomeMessage this)) (\<lambda>t. ret (Some t))
       else ret None)"

definition DashboardPage_logout :: "'s browser \<Rightarrow> DashboardPage \<Rightarrow> ('s, unit) io" where
  "DashboardPage_logout B this =
     (case header this of
        None \<Rightarrow> throw (TypeError ''header'')
      | Some h \<Rightarrow> HeaderComponent_logout B h)"

definition DashboardPage_goHome :: "'s browser \<Rightarrow> DashboardPage \<Rightarrow> ('s, unit) io" where
  "DashboardPage_goHome B this =
     (case header this of
        None \<Rightarrow> throw (TypeError ''header'')
      | Some h \<Rightarrow> HeaderComponent_clickLogo B h)"

definition DashboardPage_isLoaded :: "'s browser \<Rightarrow> DashboardPage \<Rightarrow> ('s, bool) io" where
  "DashboardPage_isLoaded B this = catch (loc_isVisible B (welcomeMessage this)) (\<lambda>_. False)"


subsection \<open>ProductPage (src/pages/ProductPage.js)\<close>

record ProductPage = BasePage +
  addToCartBtn :: locator
  productTitle :: locator
  productPrice :: locator
  productDescription :: locator
  quantityInput :: locator
  sizeSelector :: locator
  colorSelector :: locator
  reviewsSection :: locator

definition ProductPage_constructor :: "Page \<Rightarrow> ('s, ProductPage) io" where
  \<open>ProductPage_constructor pg =
     await (BasePage_constructor pg) (\<lambda>this.
       ret (BasePage.extend this
         (ProductPage.fields
           (GetByRole ''button'' (Some (RegExp ''add to cart|add to bag'' ''i'')))
           (Locator ''h1, [data-testid="product-title"]'')
           (Locator ''[data-testid="price"], .price'')
           (Locator ''[data-testid="description"], .product-description'')
           (Locator ''input[type="number"], [data-testid="quantity"]'')
           (Locator ''select[name="size"], [data-testid="size-select"]'')
           (Locator ''[data-testid="color-select"], .color-selector'')
           (Locator ''.reviews, [data-testid="reviews"]''))))\<close>

definition new_ProductPage :: "Page \<Rightarrow> ('s, ProductPage) io" where
  "new_ProductPage pg = await (alloc ''ProductPage'') (\<lambda>_. ProductPage_constructor pg)"

text \<open>The argument of \<open>addToCartWithOptions\<close>: each property may be left out.\<close>

record options =
  quantity :: "number option"
  size' :: "string option"
  color :: "string option"

text \<open>
  What \<open>if (v && ...)\<close> tests: a missing value, zero, not-a-number and the empty string
  count as absent.
\<close>

definition truthy_number :: "number option \<Rightarrow> bool" where
  "truthy_number v =
     (case v of
        None \<Rightarrow> False
      | Some NaN \<Rightarrow> False
      | Some (Finite q) \<Rightarrow> q \<noteq> 0
      | Some _ \<Rightarrow> True)"

definition truthy_string :: "string option \<Rightarrow> bool" where
  "truthy_string v = (case v of None \<Rightarrow> False | Some s \<Rightarrow> s \<noteq> [])"

definition ProductPage_addToCart :: "'s browser \<Rightarrow> ProductPage \<Rightarrow> ('s, unit) io" where
  "ProductPage_addToCart B this =
     await (loc_count B (addToCartBtn this)) (\<lambda>n.
       if n > 0 then loc_click B (addToCartBtn this) else ret ())"

definition color_css :: "string \<Rightarrow> string" where
  \<open>color_css c = ''[data-color="'' @ c @ ''"]''\<close>

definition colorOption :: "ProductPage \<Rightarrow> string \<Rightarrow> locator" where
  "colorOption this c = Within (colorSelector this) (Locator (color_css c))"

definition addToCartWithOptions_quantity ::
  "'s browser \<Rightarrow> ProductPage \<Rightarrow> options \<Rightarrow> ('s, unit) io" where
  "addToCartWithOptions_quantity B this opts =
     (if truthy_number (quantity opts)
      then await (loc_count B (quantityInput this)) (\<lambda>n.
             if n > 0
             then loc_fill_number B (quantityInput this) (the (quantity opts))
             else ret ())
      else ret ())"

definition addToCartWithOptions_size ::
  "'s browser \<Rightarrow> ProductPage \<Rightarrow> options \<Rightarrow> ('s, unit) io" where
  "addToCartWithOptions_size B this opts =
     (if truthy_string (size' opts)
      then await (loc_count B (sizeSelector this)) (\<lambda>n.
             if n > 0
             then loc_selectOption B (sizeSelector this) (the (size' opts))
             else ret ())
      else ret ())"

definition addToCartWithOptions_color ::
  "'s browser \<Rightarrow> ProductPage \<Rightarrow> options \<Rightarrow> ('s, unit) io" where
  "addToCartWithOptions_color B this opts =
     (if truthy_string (color opts)
      then await (loc_count B (colorSelector this)) (\<lambda>n.
             if n > 0
             then await (parsed B (color_css (the (color opts)))
                           (loc_count B (colorOption this (the (color opts))))) (\<lambda>m.
                    if m > 0
                    then loc_click B (colorOption this (the (color opts)))
                    else ret ())
             else ret ())
      else ret ())"

definition ProductPage_addToCartWithOptions ::
  "'s browser \<Rightarrow> ProductPage \<Rightarrow> options \<Rightarrow> ('s, unit) io" where
  "ProductPage_addToCartWithOptions B this opts =
     await (addToCartWithOptions_quantity B this opts) (\<lambda>_.
       await (addToCartWithOptions_size B this opts) (\<lambda>_.
         await (addToCartWithOptions_color B this opts) (\<lambda>_.
           ProductPage_addToCart B this)))"

definition ProductPage_getProductTitle ::
  "'s browser \<Rightarrow> ProductPage \<Rightarrow> ('s, string option) io" where
  "ProductPage_getProductTitle B this =
     await (loc_count B (productTitle this)) (\<lambda>n.
       if n > 0
       then await (loc_textContent B (productTitle this)) (\<lambda>t. ret (Some t))
       else ret None)"

definition ProductPage_getProductPrice ::
  "'s browser \<Rightarrow> ProductPage \<Rightarrow> ('s, string option) io" where
  "ProductPage_getProductPrice B this =
     await (loc_count B (productPrice this)) (\<lambda>n.
       if n > 0
       then await (loc_textContent B (productPrice this)) (\<lambda>t. ret (Some t))
       else ret None)"

definition ProductPage_getProductDescription ::
  "'s browser \<Rightarrow> ProductPage \<Rightarrow> ('s, string option) io" where
  "ProductPage_getProductDescription B this =
     await (loc_count B (productDescription this)) (\<lambda>n.
       if n > 0
       then await (loc_textContent B (productDescription this)) (\<lambda>t. ret (Some t))
       else ret None)"

definition ProductPage_searchProduct ::
  "'s browser \<Rightarrow> ProductPage \<Rightarrow> string \<Rightarrow> ('s, unit) io" where
  "ProductPage_searchProduct B this query =
     (case header this of
        None \<Rightarrow> throw (TypeError ''header'')
      | Some h \<Rightarrow> HeaderComponent_search B h query)"

definition ProductPage_isLoaded :: "'s browser \<Rightarrow> ProductPage \<Rightarrow> ('s, bool) io" where
  "ProductPage_isLoaded B this = catch (loc_isVisible B (productTitle this)) (\<lambda>_. False)"


subsection \<open>LoginPage (src/pages/LoginPage.js)\<close>

record LoginPage =
  page :: Page
  emailInput :: locator
  passwordInput :: locator
  submitButton :: locator
  errorMessage :: locator
  forgotPasswordLink :: locator
  rememberMeCheckbox :: locator

definition LoginPage_constructor :: "Page \<Rightarrow> ('s, LoginPage) io" where
  \<open>LoginPage_constructor pg = ret
     \<lparr> LoginPage.page = pg,
       emailInput = Or (GetByLabel (Text ''Email'')) (Locator ''input[type="email"]''),
       passwordInput = Or (GetByLabel (Text ''Password'')) (Locator ''input[type="password"]''),
       submitButton = GetByRole ''button'' (Some (RegExp ''log in|login|sign in|signin'' ''i'')),
       errorMessage = Locator ''.error, [role="alert"], .alert-danger'',
       forgotPasswordLink = GetByRole ''link'' (Some (RegExp ''forgot password|forgot'' ''i'')),
       rememberMeCheckbox =
         GetByRole ''checkbox'' (Some (RegExp ''remember me|remember'' ''i'')) \<rparr>\<close>

definition new_LoginPage :: "Page \<Rightarrow> ('s, LoginPage) io" where
  "new_LoginPage pg = await (alloc ''LoginPage'') (\<lambda>_. LoginPage_constructor pg)"

definition LoginPage_login ::
  "'s browser \<Rightarrow> LoginPage \<Rightarrow> string \<Rightarrow> string \<Rightarrow> ('s, unit) io" where
  "LoginPage_login B this email password =
     await (loc_fill B (emailInput this) email) (\<lambda>_.
       await (loc_fill B (passwordInput this) password) (\<lambda>_.
         loc_click B (submitButton this)))"

definition LoginPage_getErrorMessage ::
  "'s browser \<Rightarrow> LoginPage \<Rightarrow> ('s, string option) io" where
  "LoginPage_getErrorMessage B this =
     await (loc_count B (errorMessage this)) (\<lambda>n.
       if n > 0
       then await (loc_textContent B (errorMessage this)) (\<lambda>t. ret (Some t))
       else ret None)"


definition LoginPage_hasErrorMessage :: "'s browser \<Rightarrow> LoginPage \<Rightarrow> ('s, bool) io" where
  "LoginPage_hasErrorMessage B this = catch (loc_isVisible B (errorMessage this)) (\<lambda>_. False)"

definition LoginPage_isFormVisible :: "'s browser \<Rightarrow> LoginPage \<Rightarrow> ('s, bool) io" where
  "LoginPage_isFormVisible B this = catch (loc_isVisible B (emailInput this)) (\<lambda>_. False)"


section \<open>The strategy hierarchies of the SOLID examples\<close>

text \<open>
  A class hierarchy with one overridable method is a datatype with one constructor per
  class (the base class can be instantiated too) and a function that dispatches on it.
\<close>

subsection \<open>AuthStrategy (src/e2e/SOLID/OCP-Playwright.js)\<close>

datatype AuthStrategy =
    AuthStrategy
  | UsernamePasswordAuth string string
  | OAuthAuth string

fun authenticate :: "'s browser \<Rightarrow> AuthStrategy \<Rightarrow> Page \<Rightarrow> ('s, unit) io" where
  "authenticate B AuthStrategy pg = throw (Error ''Authentication strategy not implemented'')"
| "authenticate B (UsernamePasswordAuth username password) pg =
     await (page_fill B ''#username'' username) (\<lambda>_.
       await (page_fill B ''#password'' password) (\<lambda>_.
         page_click B ''#login''))"
| "authenticate B (OAuthAuth provider) pg =
     parsed B (''#oauth-'' @ provider) (page_click B (''#oauth-'' @ provider))"

datatype LoginTest = LoginTest AuthStrategy

fun LoginTest_run :: "'s browser \<Rightarrow> LoginTest \<Rightarrow> Page \<Rightarrow> ('s, unit) io" where
  "LoginTest_run B (LoginTest strategy) pg = authenticate B strategy pg"


subsection \<open>PageComponent (the LSP example)\<close>

datatype PageComponent =
    PageComponent Page
  | Header Page
  | Footer Page

fun PageComponent_isVisible :: "'s browser \<Rightarrow> PageComponent \<Rightarrow> ('s, bool) io" where
  "PageComponent_isVisible B (PageComponent pg) = throw (Error ''Visibility check not implemented'')"
| "PageComponent_isVisible B (Header pg) = loc_isVisible B (Locator ''header'')"
| "PageComponent_isVisible B (Footer pg) = loc_isVisible B (Locator ''footer'')"


subsection \<open>NotificationService (src/e2e/SOLID/DIP-Playwright.js)\<close>

datatype APIRequestContext = APIRequestContext nat

datatype NotificationService =
    NotificationService
  | ConsoleNotificationService
  | ApiNotificationService APIRequestContext

fun send :: "'s browser \<Rightarrow> NotificationService \<Rightarrow> string \<Rightarrow> ('s, unit) io" where
  "send B NotificationService message = throw (Error ''Notification service not implemented'')"
| "send B ConsoleNotificationService message = console_log (''NOTIFICATION: '' @ message)"
| "send B (ApiNotificationService request) message =
     await (request_post B ''/api/notify'' (JObj [(''message'', JStr message)])) (\<lambda>_.
       console_log ''API notification sent.'')"


section \<open>The mocked route of src/e2e/interceptor-examples.spec.js\<close>

text \<open>
  The handler registered for \<open>**/api/posts\<close>. \<open>JSON.parse\<close> and \<open>JSON.stringify\<close> belong to the
  language runtime and are parameters: the first turns the text of the request body into a
  value or raises, the second renders the value the handler has built. The request body is
  \<open>None\<close> when the request has none; \<open>request.postData() || '{}'\<close> reads that, and the empty
  text, as \<open>{}\<close>. An object is a list of properties in insertion order; setting a property
  that exists keeps its place. (Keys that look like array indices, which the language
  enumerates first, are not reordered here; the statements about the response read it as a
  map from keys to values.)
\<close>

record js_runtime =
  JSON_parse :: "string \<Rightarrow> error + json"
  JSON_stringify :: "json \<Rightarrow> string"

record response =
  status :: nat
  contentType :: string
  body :: string

definition postData_text :: "string option \<Rightarrow> string" where
  "postData_text posted = (case posted of None \<Rightarrow> ''{}'' | Some s \<Rightarrow> if s = [] then ''{}'' else s)"

definition set_property :: "string \<times> json \<Rightarrow> (string \<times> json) list \<Rightarrow> (string \<times> json) list" where
  "set_property kv obj = AList.update (fst kv) (snd kv) obj"

text \<open>The decimal digits of an array index, as a property key.\<close>

definition digit :: "nat \<Rightarrow> char" where
  "digit d = ''0123456789'' ! d"

function nat_toString :: "nat \<Rightarrow> string" where
  "nat_toString n = (if n < 10 then [digit n] else nat_toString (n div 10) @ [digit (n mod 10)])"
  by pat_completeness auto
termination
  by (relation "measure (\<lambda>n. n)") auto

declare nat_toString.simps [simp del]

text \<open>The own enumerable properties that \<open>...v\<close> copies into an object literal.\<close>

fun own_properties :: "json \<Rightarrow> (string \<times> json) list" where
  "own_properties (JObj fs) = fs"
| "own_properties (JArr xs) = zip (map nat_toString [0..<length xs]) xs"
| "own_properties (JStr s) = zip (map nat_toString [0..<length s]) (map (\<lambda>c. JStr [c]) s)"
| "own_properties _ = []"

definition spread :: "json \<Rightarrow> (string \<times> json) list \<Rightarrow> (string \<times> json) list" where
  "spread v obj = fold set_property (own_properties v) obj"

text \<open>\<open>expect(v).toHaveProperty(k)\<close> for a plain key \<open>k\<close> as the handler uses it.\<close>

fun toHaveProperty :: "json \<Rightarrow> string \<Rightarrow> bool" where
  "toHaveProperty (JObj fs) k = (map_of fs k \<noteq> None)"
| "toHaveProperty _ k = False"

definition posts_route :: "js_runtime \<Rightarrow> string option \<Rightarrow> error + response" where
  "posts_route rt posted =
     (case JSON_parse rt (postData_text posted) of
        Inl e \<Rightarrow> Inl e
      | Inr postData \<Rightarrow>
          if \<not> toHaveProperty postData ''title'' then Inl (AssertionError ''title'')
          else if \<not> toHaveProperty postData ''body'' then Inl (AssertionError ''body'')
          else Inr \<lparr> status = 201,
                     contentType = ''application/json'',
                     body = JSON_stringify rt
                              (JObj (set_property (''userId'', JNum (Finite 1))
                                      (spread postData
                                        (set_property (''id'', JNum (Finite 999)) [])))) \<rparr>)"


section \<open>What a sequence of steps is expected to do\<close>

text \<open>
  A step of an operation, seen from the document it starts on: it is skipped, it carries out
  one action, or it raises. Steps run in order; the first one that raises ends the run, and
  every action carried out changes the document the later steps see.
\<close>

datatype outcome = Skipped | Applied action | Failed error

fun carry :: "'s browser \<Rightarrow> ('s \<Rightarrow> outcome) list \<Rightarrow> 's \<Rightarrow> error option \<times> action list \<times> 's" where
  "carry B [] d = (None, [], d)"
| "carry B (step # steps) d =
     (case step d of
        Skipped \<Rightarrow> carry B steps d
      | Failed e \<Rightarrow> (Some e, [], d)
      | Applied a \<Rightarrow>
          (case carry B steps (react B d a) of (e, as, d') \<Rightarrow> (e, a # as, d')))"

text \<open>An action through a locator: it needs exactly one match that does not refuse it.\<close>

definition attempt :: "'s browser \<Rightarrow> locator \<Rightarrow> action \<Rightarrow> 's \<Rightarrow> outcome" where
  "attempt B l a d =
     (case matches B d l of
        [] \<Rightarrow> Failed TimeoutError
      | [e] \<Rightarrow> (case refuses B d a of None \<Rightarrow> Applied a | Some err \<Rightarrow> Failed err)
      | _ \<Rightarrow> Failed StrictModeViolation)"

text \<open>An action through a page-level shortcut: it goes to the first match.\<close>

definition shortcut :: "'s browser \<Rightarrow> string \<Rightarrow> action \<Rightarrow> 's \<Rightarrow> outcome" where
  "shortcut B sel a d =
     (case matches B d (Locator sel) of
        [] \<Rightarrow> Failed TimeoutError
      | e # _ \<Rightarrow> (case refuses B d a of None \<Rightarrow> Applied a | Some err \<Rightarrow> Failed err))"

subsection \<open>The steps of \<open>addToCartWithOptions\<close>\<close>

text \<open>
  An option is attempted when its value counts as present and its control is on the page,
  and skipped otherwise; the colour needs its selector on the page, a well-formed option
  selector, and the option for that colour inside the selector. The add-to-cart button is
  clicked when it is on the page.
\<close>

definition quantity_step :: "'s browser \<Rightarrow> ProductPage \<Rightarrow> options \<Rightarrow> 's \<Rightarrow> outcome" where
  "quantity_step B this opts d =
     (if truthy_number (quantity opts) \<and> matches B d (quantityInput this) \<noteq> []
      then attempt B (quantityInput this)
             (FillNumber (quantityInput this) (the (quantity opts))) d
      else Skipped)"

definition size_step :: "'s browser \<Rightarrow> ProductPage \<Rightarrow> options \<Rightarrow> 's \<Rightarrow> outcome" where
  "size_step B this opts d =
     (if truthy_string (size' opts) \<and> matches B d (sizeSelector this) \<noteq> []
      then attempt B (sizeSelector this)
             (SelectOption (sizeSelector this) (the (size' opts))) d
      else Skipped)"

definition color_step :: "'s browser \<Rightarrow> ProductPage \<Rightarrow> options \<Rightarrow> 's \<Rightarrow> outcome" where
  "color_step B this opts d =
     (if truthy_string (color opts) \<and> matches B d (colorSelector this) \<noteq> []
      then (case parse_selector B (color_css (the (color opts))) of
              Some err \<Rightarrow> Failed err
            | None \<Rightarrow>
                if matches B d (colorOption this (the (color opts))) \<noteq> []
                then attempt B (colorOption this (the (color opts)))
                       (Click (colorOption this (the (color opts)))) d
                else Skipped)
      else Skipped)"

definition cart_step :: "'s browser \<Rightarrow> ProductPage \<Rightarrow> 's \<Rightarrow> outcome" where
  "cart_step B this d =
     (if matches B d (addToCartBtn this) \<noteq> []
      then attempt B (addToCartBtn this) (Click (addToCartBtn this)) d
      else Skipped)"

definition expected_run ::
  "'s browser \<Rightarrow> ProductPage \<Rightarrow> options \<Rightarrow> 's \<Rightarrow> error option \<times> action list \<times> 's" where
  "expected_run B this opts d =
     carry B [quantity_step B this opts, size_step B this opts, color_step B this opts,
              cart_step B this] d"

definition expected_error :: "'s browser \<Rightarrow> ProductPage \<Rightarrow> options \<Rightarrow> 's \<Rightarrow> error option" where
  "expected_error B this opts d = fst (expected_run B this opts d)"

definition expected_actions :: "'s browser \<Rightarrow> ProductPage \<Rightarrow> options \<Rightarrow> 's \<Rightarrow> action list" where
  "expected_actions B this opts d = fst (snd (expected_run B this opts d))"

definition expected_doc :: "'s browser \<Rightarrow> ProductPage \<Rightarrow> options \<Rightarrow> 's \<Rightarrow> 's" where
  "expected_doc B this opts d = snd (snd (expected_run B this opts d))"

subsection \<open>The steps of the username and password login\<close>

definition password_login ::
  "'s browser \<Rightarrow> string \<Rightarrow> string \<Rightarrow> 's \<Rightarrow> error option \<times> action list \<times> 's" where
  "password_login B username password d =
     carry B [shortcut B ''#username'' (Fill (Locator ''#username'') username),
              shortcut B ''#password'' (Fill (Locator ''#password'') password),
              shortcut B ''#login'' (Click (Locator ''#login''))] d"

subsection \<open>Operations and the steps they realise\<close>

text \<open>An operation adds at most \<open>n\<close> actions to the ones already carried out.\<close>

definition adds :: "nat \<Rightarrow> ('s, 'a) io \<Rightarrow> bool" where
  "adds n m = (\<forall>w. \<exists>as. actions (snd (m w)) = actions w @ as \<and> length as \<le> n)"

text \<open>An operation does, in every world, what a step says for the document of that world.\<close>

definition realises :: "'s browser \<Rightarrow> ('s, unit) io \<Rightarrow> ('s \<Rightarrow> outcome) \<Rightarrow> bool" where
  "realises B m step =
     (\<forall>w. case step (doc w) of
            Skipped \<Rightarrow>
              fst (m w) = Inr () \<and> actions (snd (m w)) = actions w \<and> doc (snd (m w)) = doc w
          | Applied a \<Rightarrow>
              fst (m w) = Inr () \<and> actions (snd (m w)) = actions w @ [a]
                \<and> doc (snd (m w)) = react B (doc w) a
          | Failed e \<Rightarrow>
              fst (m w) = Inl e \<and> actions (snd (m w)) = actions w \<and> doc (snd (m w)) = doc w)"

text \<open>An operation does, in every world, what a whole run says.\<close>

definition plays ::
  "('s, unit) io \<Rightarrow> ('s \<Rightarrow> error option \<times> action list \<times> 's) \<Rightarrow> bool" where
  "plays m run =
     (\<forall>w. fst (m w) = (case fst (run (doc w)) of None \<Rightarrow> Inr () | Some e \<Rightarrow> Inl e)
        \<and> actions (snd (m w)) = actions w @ fst (snd (run (doc w)))
        \<and> doc (snd (m w)) = snd (snd (run (doc w))))"


section \<open>Example pages\<close>

text \<open>
  A browser whose document is a table from locators to the elements they match; no action
  on a matched element is refused, and actions leave the document as it is. Its parsers
  agree with the framework and the language on the selectors and patterns used below: they
  reject the colour selector built from a double quote and the pattern \<open>(\<close>, and accept the
  others.
\<close>

definition static_browser :: "((locator \<times> element list) list) browser" where
  "static_browser =
     \<lparr> matches = (\<lambda>d l. case map_of d l of None \<Rightarrow> [] | Some es \<Rightarrow> es),
       refuses = (\<lambda>d a. None),
       react = (\<lambda>d a. d),
       parse_selector = (\<lambda>s. if s = color_css [CHR 0x22]
                               then Some (Error ''Unexpected token while parsing css selector'')
                               else None),
       parse_regexp = (\<lambda>p flags. if p = ''(''
                                   then Some (SyntaxError ''Invalid regular expression'')
                                   else None) \<rparr>"

definition start :: "'s \<Rightarrow> 's world" where
  "start d = \<lparr> doc = d, actions = [], resolved = [], instances = [], console = [] \<rparr>"

definition shown :: "string \<Rightarrow> element" where
  "shown t = \<lparr> el_text = t, el_visible = True \<rparr>"

definition header0 :: HeaderComponent where
  "header0 = projr (fst (new_HeaderComponent (Page 0) (start ())))"

definition footer0 :: FooterComponent where
  "footer0 = projr (fst (new_FooterComponent (Page 0) (start ())))"

definition product0 :: ProductPage where
  "product0 = projr (fst (new_ProductPage (Page 0) (start ())))"

definition blank_page :: "(locator \<times> element list) list" where
  "blank_page = []"

definition search_page :: "(locator \<times> element list) list" where
  "search_page = [(searchInput header0, [shown ''Search''])]"

definition menu_page :: "(locator \<times> element list) list" where
  "menu_page = [(userMenu header0, [shown ''Account''])]"

definition two_logos_page :: "(locator \<times> element list) list" where
  "two_logos_page = [(logo header0, [shown ''Home'', shown ''Home''])]"

definition two_titles_page :: "(locator \<times> element list) list" where
  "two_titles_page = [(productTitle product0, [shown ''Shoe'', shown ''Shoe''])]"

definition shop_page :: "(locator \<times> element list) list" where
  "shop_page =
     [(quantityInput product0, [shown ''1'']),
      (sizeSelector product0, [shown ''S M L'']),
      (colorSelector product0, [shown ''red blue'']),
      (colorOption product0 ''red'', [shown ''red'']),
      (addToCartBtn product0, [shown ''Add to cart''])]"

definition no_red_page :: "(locator \<times> element list) list" where
  "no_red_page =
     [(quantityInput product0, [shown ''1'']),
      (colorSelector product0, [shown ''blue'']),
      (addToCartBtn product0, [shown ''Add to cart''])]"

definition twin_inputs_page :: "(locator \<times> element list) list" where
  "twin_inputs_page =
     [(quantityInput product0, [shown ''1'', shown ''1'']),
      (addToCartBtn product0, [shown ''Add to cart''])]"

definition full_order :: options where
  "full_order = \<lparr> quantity = Some (Finite 2), size' = Some ''M'', color = Some ''red'' \<rparr>"

definition zero_red_order :: options where
  "zero_red_order = \<lparr> quantity = Some (Finite 0), size' = None, color = Some ''red'' \<rparr>"

definition two_items_order :: options where
  "two_items_order = \<lparr> quantity = Some (Finite 2), size' = None, color = None \<rparr>"

definition quote_order :: options where
  "quote_order = \<lparr> quantity = None, size' = None, color = Some [CHR 0x22] \<rparr>"

text \<open>
  The documents posted in the examples, as texts and as the values they parse to, and a
  runtime that knows these texts: it parses them as the language does and treats every
  other text as malformed, as the text \<open>{\<close> used below is; it renders the response of the
  examples as the language does, and only that.
\<close>

definition plain_text :: string where
  \<open>plain_text = ''{"title":"Test Post","body":"Test Body"}''\<close>

definition plain_post :: "(string \<times> json) list" where
  "plain_post = [(''title'', JStr ''Test Post''), (''body'', JStr ''Test Body'')]"

definition owned_text :: string where
  \<open>owned_text = ''{"title":"Test Post","body":"Test Body","userId":7}''\<close>

definition owned_post :: "(string \<times> json) list" where
  "owned_post =
     [(''title'', JStr ''Test Post''), (''body'', JStr ''Test Body''),
      (''userId'', JNum (Finite 7))]"

definition untitled_text :: string where
  \<open>untitled_text = ''{"body":"Test Body"}''\<close>

definition bodiless_text :: string where
  \<open>bodiless_text = ''{"title":"Test Post"}''\<close>

definition mock_response :: "(string \<times> json) list" where
  "mock_response =
     [(''id'', JNum (Finite 999)), (''title'', JStr ''Test Post''),
      (''body'', JStr ''Test Body''), (''userId'', JNum (Finite 1))]"

definition mock_response_text :: string where
  \<open>mock_response_text = ''{"id":999,"title":"Test Post","body":"Test Body","userId":1}''\<close>

definition example_runtime :: js_runtime where
  "example_runtime =
     \<lparr> JSON_parse = (\<lambda>s.
         if s = ''{}'' then Inr (JObj [])
         else if s = plain_text then Inr (JObj plain_post)
         else if s = owned_text then Inr (JObj owned_post)
         else if s = untitled_text then Inr (JObj [(''body'', JStr ''Test Body'')])
         else if s = bodiless_text then Inr (JObj [(''title'', JStr ''Test Post'')])
         else Inl (SyntaxError ''Unexpected end of JSON input'')),
       JSON_stringify = (\<lambda>v. if v = JObj mock_response then mock_response_text else []) \<rparr>"

section \<open>Running the primitives\<close>

lemma await_ret [simp]: "await (ret x) f = f x"
  by (simp add: await_def ret_def)

lemma await_throw [simp]: "await (throw e) f = throw e"
  by (simp add: await_def throw_def)

lemma await_Inr: "m w = (Inr x, w') \<Longrightarrow> await m f w = f x w'"
  by (simp add: await_def)

lemma await_Inl: "m w = (Inl e, w') \<Longrightarrow> await m f w = (Inl e, w')"
  by (simp add: await_def)

lemma await_success:
  assumes "await m f w = (Inr y, w'')"
  obtains x w' where "m w = (Inr x, w')" and "f x w' = (Inr y, w'')"
  using assms by (auto simp: await_def split: prod.splits sum.splits)

lemma lookup_run:
  "lookup B l w = (Inr (matches B (doc w) l), w\<lparr>resolved := resolved w @ [l]\<rparr>)"
  by (simp add: lookup_def)

lemma loc_count_run:
  "loc_count B l w = (Inr (length (matches B (doc w) l)), w\<lparr>resolved := resolved w @ [l]\<rparr>)"
  by (simp add: loc_count_def await_def lookup_def ret_def)

lemma guarded_absent:
  assumes "matches B (doc w) l = []"
  shows "await (loc_count B l) (\<lambda>n. if n > 0 then m n else ret x) w
         = (Inr x, w\<lparr>resolved := resolved w @ [l]\<rparr>)"
  using assms by (simp add: await_Inr [OF loc_count_run] ret_def)

lemma guarded_present:
  assumes "matches B (doc w) l \<noteq> []"
  shows "await (loc_count B l) (\<lambda>n. if n > 0 then m n else ret x) w
         = m (length (matches B (doc w) l)) (w\<lparr>resolved := resolved w @ [l]\<rparr>)"
  using assms by (simp add: await_Inr [OF loc_count_run])

lemma strict_none:
  "matches B (doc w) l = [] \<Longrightarrow> strict B l k w = (Inl TimeoutError, w\<lparr>resolved := resolved w @ [l]\<rparr>)"
  by (simp add: strict_def await_Inr [OF lookup_run] throw_def)

lemma strict_one:
  "matches B (doc w) l = [e] \<Longrightarrow> strict B l k w = k e (w\<lparr>resolved := resolved w @ [l]\<rparr>)"
  by (simp add: strict_def await_Inr [OF lookup_run])

lemma strict_many:
  "matches B (doc w) l = e # e' # es \<Longrightarrow>
   strict B l k w = (Inl StrictModeViolation, w\<lparr>resolved := resolved w @ [l]\<rparr>)"
  by (simp add: strict_def await_Inr [OF lookup_run] throw_def)

lemma strict_success:
  assumes "strict B l k w = (Inr x, w')"
  obtains e where "matches B (doc w) l = [e]"
    and "k e (w\<lparr>resolved := resolved w @ [l]\<rparr>) = (Inr x, w')"
  using assms
  by (auto simp: strict_def await_Inr [OF lookup_run] throw_def split: list.splits)

lemma perform_success:
  assumes "perform B a w = (Inr x, w')"
  shows "w' = w\<lparr>doc := react B (doc w) a, actions := actions w @ [a]\<rparr>"
  using assms by (auto simp: perform_def split: option.splits)

section \<open>Component operations on a page without their target\<close>

text \<open>
  C1 (as amended). Every component operation that checks presence first is a no-op when its
  target is absent: \<open>search\<close>, \<open>openUserMenu\<close>, \<open>navigateTo\<close>, \<open>clickLink\<close>,
  \<open>getCopyrightText\<close>, \<open>getAllLinks\<close> and the two \<open>isVisible\<close> checks return normally (with
  nothing, \<open>null\<close>, the empty list or \<open>false\<close>) when their locator matches no element;
  \<open>logout\<close> does so when both the user menu and the logout button are absent, and
  \<open>clickSocialLink\<close> when its platform is a well-formed pattern. No action is carried out and
  the document stays as it was: the world changes only in the record of the locators that
  were looked up. For a platform that is not a well-formed pattern \<open>clickSocialLink\<close> raises
  the \<open>SyntaxError\<close> of \<open>new RegExp\<close> before anything is looked up, whatever the page shows.
  \<open>clickLogo\<close> is not among the guarded operations: it clicks without a presence check.
\<close>

theorem absent_target_is_no_op:
  fixes B :: "'s browser" and w :: "'s world"
  shows
  "(matches B (doc w) (searchInput h) = [] \<longrightarrow>
      HeaderComponent_search B h query w
        = (Inr (), w\<lparr>resolved := resolved w @ [searchInput h]\<rparr>))
 \<and> (matches B (doc w) (userMenu h) = [] \<longrightarrow>
      HeaderComponent_openUserMenu B h w
        = (Inr (), w\<lparr>resolved := resolved w @ [userMenu h]\<rparr>))
 \<and> (matches B (doc w) (userMenu h) = [] \<and> matches B (doc w) (logoutBtn h) = [] \<longrightarrow>
      HeaderComponent_logout B h w
        = (Inr (), w\<lparr>resolved := resolved w @ [userMenu h, logoutBtn h]\<rparr>))
 \<and> (matches B (doc w) (FilterHasText (navigationLinks h) (Text linkText)) = [] \<longrightarrow>
      HeaderComponent_navigateTo B h linkText w
        = (Inr (), w\<lparr>resolved := resolved w
                         @ [FilterHasText (navigationLinks h) (Text linkText)]\<rparr>))
 \<and> (matches B (doc w) (logo h) = [] \<longrightarrow>
      HeaderComponent_isVisible B h w
        = (Inr False, w\<lparr>resolved := resolved w @ [logo h]\<rparr>))
 \<and> (matches B (doc w) (FilterHasText (footerLinks f) (Text linkText)) = [] \<longrightarrow>
      FooterComponent_clickLink B f linkText w
        = (Inr (), w\<lparr>resolved := resolved w
                         @ [FilterHasText (footerLinks f) (Text linkText)]\<rparr>))
 \<and> (matches B (doc w) (copyrightText f) = [] \<longrightarrow>
      FooterComponent_getCopyrightText B f w
        = (Inr None, w\<lparr>resolved := resolved w @ [copyrightText f]\<rparr>))
 \<and> (parse_regexp B platform ''i'' = None
      \<and> matches B (doc w) (FilterHasText (socialLinks f) (RegExp platform ''i'')) = [] \<longrightarrow>
      FooterComponent_clickSocialLink B f platform w
        = (Inr (), w\<lparr>resolved := resolved w
                         @ [FilterHasText (socialLinks f) (RegExp platform ''i'')]\<rparr>))
 \<and> (parse_regexp B broken ''i'' = Some err \<longrightarrow>
      FooterComponent_clickSocialLink B f broken w = (Inl err, w))
 \<and> (matches B (doc w) (FooterComponent.footer f) = [] \<longrightarrow>
      FooterComponent_isVisible B f w
        = (Inr False, w\<lparr>resolved := resolved w @ [FooterComponent.footer f]\<rparr>))
 \<and> (matches B (doc w) (footerLinks f) = [] \<longrightarrow>
      FooterComponent_getAllLinks B f w
        = (Inr [], w\<lparr>resolved := resolved w @ [footerLinks f]\<rparr>))"
proof -
  have search: "matches B (doc w) (searchInput h) = [] \<Longrightarrow>
      HeaderComponent_search B h query w
        = (Inr (), w\<lparr>resolved := resolved w @ [searchInput h]\<rparr>)"
    by (simp add: HeaderComponent_search_def guarded_absent)
  have menu: "\<And>v. matches B (doc v) (userMenu h) = [] \<Longrightarrow>
      HeaderComponent_openUserMenu B h v
        = (Inr (), v\<lparr>resolved := resolved v @ [userMenu h]\<rparr>)"
    by (simp add: HeaderComponent_openUserMenu_def guarded_absent)
  have logout: "matches B (doc w) (userMenu h) = [] \<Longrightarrow> matches B (doc w) (logoutBtn h) = [] \<Longrightarrow>
      HeaderComponent_logout B h w
        = (Inr (), w\<lparr>resolved := resolved w @ [userMenu h, logoutBtn h]\<rparr>)"
    by (simp add: HeaderComponent_logout_def await_Inr [OF menu] guarded_absent)
  have nav: "matches B (doc w) (FilterHasText (navigationLinks h) (Text linkText)) = [] \<Longrightarrow>
      HeaderComponent_navigateTo B h linkText w
        = (Inr (), w\<lparr>resolved := resolved w
                         @ [FilterHasText (navigationLinks h) (Text linkText)]\<rparr>)"
    by (simp add: HeaderComponent_navigateTo_def Let_def guarded_absent)
  have hvis: "matches B (doc w) (logo h) = [] \<Longrightarrow>
      HeaderComponent_isVisible B h w
        = (Inr False, w\<lparr>resolved := resolved w @ [logo h]\<rparr>)"
    by (simp add: HeaderComponent_isVisible_def catch_def loc_isVisible_def
        await_Inr [OF lookup_run] ret_def)
  have link: "matches B (doc w) (FilterHasText (footerLinks f) (Text linkText)) = [] \<Longrightarrow>
      FooterComponent_clickLink B f linkText w
        = (Inr (), w\<lparr>resolved := resolved w
                         @ [FilterHasText (footerLinks f) (Text linkText)]\<rparr>)"
    by (simp add: FooterComponent_clickLink_def Let_def guarded_absent)
  have copy: "matches B (doc w) (copyrightText f) = [] \<Longrightarrow>
      FooterComponent_getCopyrightText B f w
        = (Inr None, w\<lparr>resolved := resolved w @ [copyrightText f]\<rparr>)"
    by (simp add: FooterComponent_getCopyrightText_def guarded_absent)
  have social: "parse_regexp B platform ''i'' = None \<Longrightarrow>
      matches B (doc w) (FilterHasText (socialLinks f) (RegExp platform ''i'')) = [] \<Longrightarrow>
      FooterComponent_clickSocialLink B f platform w
        = (Inr (), w\<lparr>resolved := resolved w
                         @ [FilterHasText (socialLinks f) (RegExp platform ''i'')]\<rparr>)"
    by (simp add: FooterComponent_clickSocialLink_def new_RegExp_def Let_def guarded_absent)
  have broken: "parse_regexp B broken ''i'' = Some err \<Longrightarrow>
      FooterComponent_clickSocialLink B f broken w = (Inl err, w)"
    by (simp add: FooterComponent_clickSocialLink_def new_RegExp_def throw_def await_def)
  have fvis: "matches B (doc w) (FooterComponent.footer f) = [] \<Longrightarrow>
      FooterComponent_isVisible B f w
        = (Inr False, w\<lparr>resolved := resolved w @ [FooterComponent.footer f]\<rparr>)"
    by (simp add: FooterComponent_isVisible_def catch_def loc_isVisible_def
        await_Inr [OF lookup_run] ret_def)
  have links: "matches B (doc w) (footerLinks f) = [] \<Longrightarrow>
      FooterComponent_getAllLinks B f w
        = (Inr [], w\<lparr>resolved := resolved w @ [footerLinks f]\<rparr>)"
    by (simp add: FooterComponent_getAllLinks_def await_Inr [OF loc_count_run] ret_def)
  show ?thesis
    using search menu [of w] logout nav hvis link copy social broken fvis links by blast
qed

text \<open>On the blank page no locator matches anything.\<close>

lemma blank_page_matches: "matches static_browser (doc (start blank_page)) l = []"
  by (simp add: static_browser_def start_def blank_page_def)

theorem absent_target_is_no_op_witness:
  "matches static_browser (doc (start blank_page)) (searchInput header0) = []
 \<and> HeaderComponent_search static_browser header0 ''shoes'' (start blank_page)
     = (Inr (), (start blank_page)\<lparr>resolved := resolved (start blank_page)
                                        @ [searchInput header0]\<rparr>)
 \<and> matches static_browser (doc (start blank_page)) (userMenu header0) = []
 \<and> HeaderComponent_openUserMenu static_browser header0 (start blank_page)
     = (Inr (), (start blank_page)\<lparr>resolved := resolved (start blank_page)
                                        @ [userMenu header0]\<rparr>)
 \<and> matches static_browser (doc (start blank_page)) (logoutBtn header0) = []
 \<and> HeaderComponent_logout static_browser header0 (start blank_page)
     = (Inr (), (start blank_page)\<lparr>resolved := resolved (start blank_page)
                                        @ [userMenu header0, logoutBtn header0]\<rparr>)
 \<and> matches static_browser (doc (start blank_page))
       (FilterHasText (navigationLinks header0) (Text ''Home'')) = []
 \<and> HeaderComponent_navigateTo static_browser header0 ''Home'' (start blank_page)
     = (Inr (), (start blank_page)\<lparr>resolved := resolved (start blank_page)
                   @ [FilterHasText (navigationLinks header0) (Text ''Home'')]\<rparr>)
 \<and> matches static_browser (doc (start blank_page)) (logo header0) = []
 \<and> HeaderComponent_isVisible static_browser header0 (start blank_page)
     = (Inr False, (start blank_page)\<lparr>resolved := resolved (start blank_page)
                                           @ [logo header0]\<rparr>)
 \<and> matches static_browser (doc (start blank_page))
       (FilterHasText (footerLinks footer0) (Text ''Home'')) = []
 \<and> FooterComponent_clickLink static_browser footer0 ''Home'' (start blank_page)
     = (Inr (), (start blank_page)\<lparr>resolved := resolved (start blank_page)
                   @ [FilterHasText (footerLinks footer0) (Text ''Home'')]\<rparr>)
 \<and> matches static_browser (doc (start blank_page)) (copyrightText footer0) = []
 \<and> FooterComponent_getCopyrightText static_browser footer0 (start blank_page)
     = (Inr None, (start blank_page)\<lparr>resolved := resolved (start blank_page)
                                          @ [copyrightText footer0]\<rparr>)
 \<and> parse_regexp static_browser ''twitter'' ''i'' = None
 \<and> matches static_browser (doc (start blank_page))
       (FilterHasText (socialLinks footer0) (RegExp ''twitter'' ''i'')) = []
 \<and> FooterComponent_clickSocialLink static_browser footer0 ''twitter'' (start blank_page)
     = (Inr (), (start blank_page)\<lparr>resolved := resolved (start blank_page)
                   @ [FilterHasText (socialLinks footer0) (RegExp ''twitter'' ''i'')]\<rparr>)
 \<and> parse_regexp static_browser ''('' ''i'' = Some (SyntaxError ''Invalid regular expression'')
 \<and> FooterComponent_clickSocialLink static_browser footer0 ''('' (start blank_page)
     = (Inl (SyntaxError ''Invalid regular expression''), start blank_page)
 \<and> matches static_browser (doc (start blank_page)) (FooterComponent.footer footer0) = []
 \<and> FooterComponent_isVisible static_browser footer0 (start blank_page)
     = (Inr False, (start blank_page)\<lparr>resolved := resolved (start blank_page)
                                           @ [FooterComponent.footer footer0]\<rparr>)
 \<and> matches static_browser (doc (start blank_page)) (footerLinks footer0) = []
 \<and> FooterComponent_getAllLinks static_browser footer0 (start blank_page)
     = (Inr [], (start blank_page)\<lparr>resolved := resolved (start blank_page)
                                        @ [footerLinks footer0]\<rparr>)"
proof -
  have twitter: "parse_regexp static_browser ''twitter'' ''i'' = None"
    by (simp add: static_browser_def)
  have paren: "parse_regexp static_browser ''('' ''i''
      = Some (SyntaxError ''Invalid regular expression'')"
    by (simp add: static_browser_def)
  show ?thesis
    using absent_target_is_no_op [of static_browser "start blank_page" header0 "''shoes''"
        "''Home''" footer0 "''twitter''" "''(''" "SyntaxError ''Invalid regular expression''"]
    by (simp add: blank_page_matches twitter paren)
qed

text \<open>
  \<open>logout\<close> with only the logout button absent: the user menu is still opened, so the call
  is a no-op only when both are absent.
\<close>

lemma header0_fields:
  \<open>userMenu header0 = Or (GetByTestId ''user-menu'') (Locator ''[data-testid="user-menu"]'')\<close>
  \<open>logoutBtn header0
     = Or (GetByTestId ''logout'') (GetByRole ''button'' (Some (RegExp ''logout'' ''i'')))\<close>
  by (simp_all add: header0_def new_HeaderComponent_def HeaderComponent_constructor_def
      alloc_def await_def ret_def)

lemma logout_without_button_opens_menu:
  "matches static_browser (doc (start menu_page)) (logoutBtn header0) = []
 \<and> fst (HeaderComponent_logout static_browser header0 (start menu_page)) = Inr ()
 \<and> actions (snd (HeaderComponent_logout static_browser header0 (start menu_page)))
     = [Click (userMenu header0)]"
  by (simp add: HeaderComponent_logout_def HeaderComponent_openUserMenu_def
      loc_count_def loc_click_def strict_def lookup_def perform_def await_def ret_def
      static_browser_def start_def menu_page_def header0_fields)

text \<open>
  C1 as stated fails for \<open>clickLogo\<close>: on the blank page, where the logo is absent, the call
  ends in the framework's timeout error instead of returning.
\<close>

theorem clickLogo_absent_counterexample:
  "matches static_browser (doc (start blank_page)) (logo header0) = []
 \<and> fst (HeaderComponent_clickLogo static_browser header0 (start blank_page)) = Inl TimeoutError"
  by (simp add: blank_page_matches HeaderComponent_clickLogo_def loc_click_def strict_none)

section \<open>How many actions an operation adds\<close>

lemma adds_ret: "adds 0 (ret x)"
  by (simp add: adds_def ret_def)

lemma adds_throw: "adds 0 (throw e)"
  by (simp add: adds_def throw_def)

lemma adds_lookup: "adds 0 (lookup B l)"
  by (simp add: adds_def lookup_def)

lemma adds_perform: "adds 1 (perform B a)"
  by (simp add: adds_def perform_def split: option.splits)

lemma adds_mono: "adds a m \<Longrightarrow> a \<le> b \<Longrightarrow> adds b m"
  unfolding adds_def by (meson le_trans)

lemma adds_await:
  assumes m: "adds a m" and f: "\<And>x. adds b (f x)"
  shows "adds (a + b) (await m f)"
  unfolding adds_def
proof
  fix w
  obtain r w' where mw: "m w = (r, w')" by (cases "m w")
  from m obtain as where as: "actions w' = actions w @ as" "length as \<le> a"
    unfolding adds_def using mw by (metis snd_conv)
  show "\<exists>cs. actions (snd (await m f w)) = actions w @ cs \<and> length cs \<le> a + b"
  proof (cases r)
    case (Inl e)
    then have "await m f w = (Inl e, w')" using mw by (simp add: await_def)
    then show ?thesis using as by auto
  next
    case (Inr x)
    then have run: "await m f w = f x w'" using mw by (simp add: await_def)
    from f [of x] obtain bs where "actions (snd (f x w')) = actions w' @ bs" "length bs \<le> b"
      unfolding adds_def by blast
    then have "actions (snd (await m f w)) = actions w @ (as @ bs) \<and> length (as @ bs) \<le> a + b"
      using as run by simp
    then show ?thesis by blast
  qed
qed

lemma adds_catch: "adds n m \<Longrightarrow> adds n (catch m h)"
  unfolding adds_def catch_def
  by (auto split: prod.splits sum.splits) (metis snd_conv)+

lemma adds_count: "adds 0 (loc_count B l)"
  unfolding loc_count_def using adds_await [OF adds_lookup, of 0] adds_ret by fastforce

lemma adds_strict:
  assumes "\<And>e. adds n (k e)"
  shows "adds n (strict B l k)"
proof -
  have "adds n (case es of [] \<Rightarrow> throw TimeoutError | [e] \<Rightarrow> k e
                 | e # e' # es' \<Rightarrow> throw StrictModeViolation)" for es
    using assms adds_mono [OF adds_throw, of n]
    by (auto split: list.splits)
  then show ?thesis
    unfolding strict_def using adds_await [OF adds_lookup, of n] by fastforce
qed

lemma adds_click: "adds 1 (loc_click B l)"
  unfolding loc_click_def by (rule adds_strict) (rule adds_perform)

lemma adds_fill: "adds 1 (loc_fill B l v)"
  unfolding loc_fill_def by (rule adds_strict) (rule adds_perform)

lemma adds_textContent: "adds 0 (loc_textContent B l)"
  unfolding loc_textContent_def by (rule adds_strict) (rule adds_ret)

lemma adds_isVisible: "adds 0 (loc_isVisible B l)"
proof -
  have "adds 0 (case es of [] \<Rightarrow> ret False | [e] \<Rightarrow> ret (el_visible e)
                 | e # e' # es' \<Rightarrow> throw StrictModeViolation)" for es
    using adds_ret adds_throw by (auto split: list.splits)
  then show ?thesis
    unfolding loc_isVisible_def using adds_await [OF adds_lookup, of 0] by fastforce
qed

lemma adds_guarded:
  fixes m :: "('s, 'a) io"
  assumes "adds n m"
  shows "adds n (await (loc_count B l) (\<lambda>c. if c > 0 then m else ret x))"
proof -
  have r: "adds n (ret x :: ('s, 'a) io)"
    by (rule adds_mono [OF adds_ret]) simp
  have "adds n (if c > 0 then m else ret x)" for c :: nat
    using assms r by simp
  then have "adds (0 + n) (await (loc_count B l) (\<lambda>c. if c > 0 then m else ret x))"
    by (intro adds_await adds_count)
  then show ?thesis by simp
qed

lemma adds_clickLogo: "adds 1 (HeaderComponent_clickLogo B h)"
  unfolding HeaderComponent_clickLogo_def by (rule adds_click)

lemma adds_search: "adds 2 (HeaderComponent_search B h query)"
proof -
  have "adds (1 + 1) (await (loc_fill B (searchInput h) query) (\<lambda>_. keyboard_press B ''Enter''))"
    by (rule adds_await [OF adds_fill]) (unfold keyboard_press_def, rule adds_perform)
  then have "adds 2 (await (loc_fill B (searchInput h) query) (\<lambda>_. keyboard_press B ''Enter''))"
    by (simp only: one_add_one)
  then show ?thesis
    unfolding HeaderComponent_search_def by (rule adds_guarded)
qed

lemma adds_openUserMenu: "adds 1 (HeaderComponent_openUserMenu B h)"
  unfolding HeaderComponent_openUserMenu_def by (rule adds_guarded) (rule adds_click)

lemma adds_logout: "adds 2 (HeaderComponent_logout B h)"
proof -
  have "adds (1 + 1) (HeaderComponent_logout B h)"
    unfolding HeaderComponent_logout_def
    by (rule adds_await [OF adds_openUserMenu]) (rule adds_guarded, rule adds_click)
  then show ?thesis by (simp only: one_add_one)
qed

lemma adds_navigateTo: "adds 1 (HeaderComponent_navigateTo B h linkText)"
  unfolding HeaderComponent_navigateTo_def Let_def by (rule adds_guarded) (rule adds_click)

lemma adds_header_isVisible: "adds 0 (HeaderComponent_isVisible B h)"
  unfolding HeaderComponent_isVisible_def by (rule adds_catch) (rule adds_isVisible)

lemma adds_clickLink: "adds 1 (FooterComponent_clickLink B f linkText)"
  unfolding FooterComponent_clickLink_def Let_def by (rule adds_guarded) (rule adds_click)

lemma adds_getCopyrightText: "adds 0 (FooterComponent_getCopyrightText B f)"
proof -
  have "adds (0 + 0) (await (loc_textContent B (copyrightText f)) (\<lambda>t. ret (Some t)))"
    by (rule adds_await [OF adds_textContent]) (rule adds_ret)
  then have "adds 0 (await (loc_textContent B (copyrightText f)) (\<lambda>t. ret (Some t)))"
    by simp
  then show ?thesis
    unfolding FooterComponent_getCopyrightText_def by (rule adds_guarded)
qed

lemma adds_new_RegExp: "adds 0 (new_RegExp B p flags)"
  by (simp add: new_RegExp_def adds_def ret_def throw_def split: option.splits)

lemma adds_clickSocialLink: "adds 1 (FooterComponent_clickSocialLink B f platform)"
proof -
  have "adds (0 + 1) (FooterComponent_clickSocialLink B f platform)"
    unfolding FooterComponent_clickSocialLink_def Let_def
    by (rule adds_await [OF adds_new_RegExp]) (rule adds_guarded, rule adds_click)
  then show ?thesis by simp
qed

lemma adds_footer_isVisible: "adds 0 (FooterComponent_isVisible B f)"
  unfolding FooterComponent_isVisible_def by (rule adds_catch) (rule adds_isVisible)

lemma adds_getAllLinks_loop: "adds 0 (getAllLinks_loop B f is links)"
proof (induction "is" arbitrary: links)
  case Nil
  show ?case by (simp add: adds_ret)
next
  case (Cons i "is")
  have "adds (0 + 0) (await (loc_textContent B (Nth (footerLinks f) i))
          (\<lambda>text. getAllLinks_loop B f is (links @ [text])))"
    by (rule adds_await [OF adds_textContent]) (rule Cons.IH)
  then show ?case by simp
qed

lemma adds_getAllLinks: "adds 0 (FooterComponent_getAllLinks B f)"
proof -
  have "adds (0 + 0) (FooterComponent_getAllLinks B f)"
    unfolding FooterComponent_getAllLinks_def
    by (rule adds_await [OF adds_count]) (rule adds_getAllLinks_loop)
  then show ?thesis by simp
qed

lemma adds_0D: "adds 0 m \<Longrightarrow> actions (snd (m w)) = actions w"
  unfolding adds_def by (metis append_Nil2 le_zero_eq length_0_conv)

lemma adds_D: "adds n m \<Longrightarrow> \<exists>as. actions (snd (m w)) = actions w @ as \<and> length as \<le> n"
  unfolding adds_def by blast

text \<open>
  C4 (as amended). A call of a component operation carries out at most two user-facing
  actions: \<open>search\<close> fills the search field and then presses Enter, \<open>logout\<close> opens the user
  menu and then clicks the logout button. \<open>clickLogo\<close>, \<open>openUserMenu\<close>, \<open>navigateTo\<close>,
  \<open>clickLink\<close> and \<open>clickSocialLink\<close> carry out at most one; the two \<open>isVisible\<close> checks,
  \<open>getCopyrightText\<close> and \<open>getAllLinks\<close> carry out none. This holds whether the call returns
  or raises.
\<close>

theorem component_operations_add_at_most_two_actions:
  fixes B :: "'s browser" and w :: "'s world"
  shows
  "(\<exists>as. actions (snd (HeaderComponent_clickLogo B h w)) = actions w @ as \<and> length as \<le> 1)
 \<and> (\<exists>as. actions (snd (HeaderComponent_search B h query w)) = actions w @ as \<and> length as \<le> 2)
 \<and> (\<exists>as. actions (snd (HeaderComponent_openUserMenu B h w)) = actions w @ as \<and> length as \<le> 1)
 \<and> (\<exists>as. actions (snd (HeaderComponent_logout B h w)) = actions w @ as \<and> length as \<le> 2)
 \<and> (\<exists>as. actions (snd (HeaderComponent_navigateTo B h linkText w)) = actions w @ as
          \<and> length as \<le> 1)
 \<and> actions (snd (HeaderComponent_isVisible B h w)) = actions w
 \<and> (\<exists>as. actions (snd (FooterComponent_clickLink B f linkText w)) = actions w @ as
          \<and> length as \<le> 1)
 \<and> actions (snd (FooterComponent_getCopyrightText B f w)) = actions w
 \<and> (\<exists>as. actions (snd (FooterComponent_clickSocialLink B f platform w)) = actions w @ as
          \<and> length as \<le> 1)
 \<and> actions (snd (FooterComponent_isVisible B f w)) = actions w
 \<and> actions (snd (FooterComponent_getAllLinks B f w)) = actions w"
proof (intro conjI)
  show "\<exists>as. actions (snd (HeaderComponent_clickLogo B h w)) = actions w @ as \<and> length as \<le> 1"
    by (rule adds_D [OF adds_clickLogo])
  show "\<exists>as. actions (snd (HeaderComponent_search B h query w)) = actions w @ as \<and> length as \<le> 2"
    by (rule adds_D [OF adds_search])
  show "\<exists>as. actions (snd (HeaderComponent_openUserMenu B h w)) = actions w @ as \<and> length as \<le> 1"
    by (rule adds_D [OF adds_openUserMenu])
  show "\<exists>as. actions (snd (HeaderComponent_logout B h w)) = actions w @ as \<and> length as \<le> 2"
    by (rule adds_D [OF adds_logout])
  show "\<exists>as. actions (snd (HeaderComponent_navigateTo B h linkText w)) = actions w @ as
          \<and> length as \<le> 1"
    by (rule adds_D [OF adds_navigateTo])
  show "actions (snd (HeaderComponent_isVisible B h w)) = actions w"
    by (rule adds_0D [OF adds_header_isVisible])
  show "\<exists>as. actions (snd (FooterComponent_clickLink B f linkText w)) = actions w @ as
          \<and> length as \<le> 1"
    by (rule adds_D [OF adds_clickLink])
  show "actions (snd (FooterComponent_getCopyrightText B f w)) = actions w"
    by (rule adds_0D [OF adds_getCopyrightText])
  show "\<exists>as. actions (snd (FooterComponent_clickSocialLink B f platform w)) = actions w @ as
          \<and> length as \<le> 1"
    by (rule adds_D [OF adds_clickSocialLink])
  show "actions (snd (FooterComponent_isVisible B f w)) = actions w"
    by (rule adds_0D [OF adds_footer_isVisible])
  show "actions (snd (FooterComponent_getAllLinks B f w)) = actions w"
    by (rule adds_0D [OF adds_getAllLinks])
qed

text \<open>
  C4 as stated fails for \<open>search\<close>: on a page with a search field, one call fills the field
  and presses Enter, which are two actions.
\<close>

theorem search_two_actions_counterexample:
  "actions (start search_page) = []
 \<and> actions (snd (HeaderComponent_search static_browser header0 ''shoes'' (start search_page)))
     = [Fill (searchInput header0) ''shoes'', Press ''Enter'']"
  by (simp add: HeaderComponent_search_def loc_count_def loc_fill_def strict_def lookup_def
      perform_def keyboard_press_def await_def ret_def
      static_browser_def start_def search_page_def)

section \<open>Visibility checks\<close>

lemma catch_false:
  "fst (catch m (\<lambda>_. False) w) = Inr (case fst (m w) of Inl e \<Rightarrow> False | Inr b \<Rightarrow> b)"
  by (simp add: catch_def split: prod.splits sum.splits)

text \<open>
  C5. \<open>HeaderComponent.isVisible\<close>, \<open>FooterComponent.isVisible\<close> and \<open>ProductPage.isLoaded\<close>
  return a boolean in every world: the answer of the framework's visibility check when that
  check returns, and \<open>false\<close> when it raises. No fault reaches the caller. The same holds for
  the other checks of this shape, \<open>DashboardPage.isLoaded\<close>, \<open>LoginPage.hasErrorMessage\<close> and
  \<open>LoginPage.isFormVisible\<close>.
\<close>

theorem visibility_checks_return_boolean:
  fixes B :: "'s browser" and w :: "'s world"
  shows
  "fst (HeaderComponent_isVisible B h w)
     = Inr (case fst (loc_isVisible B (logo h) w) of Inl e \<Rightarrow> False | Inr b \<Rightarrow> b)
 \<and> fst (FooterComponent_isVisible B f w)
     = Inr (case fst (loc_isVisible B (FooterComponent.footer f) w) of
              Inl e \<Rightarrow> False | Inr b \<Rightarrow> b)
 \<and> fst (ProductPage_isLoaded B p w)
     = Inr (case fst (loc_isVisible B (productTitle p) w) of Inl e \<Rightarrow> False | Inr b \<Rightarrow> b)
 \<and> fst (DashboardPage_isLoaded B d w)
     = Inr (case fst (loc_isVisible B (welcomeMessage d) w) of Inl e \<Rightarrow> False | Inr b \<Rightarrow> b)
 \<and> fst (LoginPage_hasErrorMessage B lp w)
     = Inr (case fst (loc_isVisible B (errorMessage lp) w) of Inl e \<Rightarrow> False | Inr b \<Rightarrow> b)
 \<and> fst (LoginPage_isFormVisible B lp w)
     = Inr (case fst (loc_isVisible B (emailInput lp) w) of Inl e \<Rightarrow> False | Inr b \<Rightarrow> b)"
  by (simp add: HeaderComponent_isVisible_def FooterComponent_isVisible_def
      ProductPage_isLoaded_def DashboardPage_isLoaded_def LoginPage_hasErrorMessage_def
      LoginPage_isFormVisible_def catch_false)

text \<open>
  A fault that is suppressed: with two elements matching the logo the framework's check
  raises a strictness violation, and \<open>isVisible\<close> answers \<open>false\<close>.
\<close>

lemma isVisible_fault_suppressed:
  "fst (loc_isVisible static_browser (logo header0) (start two_logos_page))
     = Inl StrictModeViolation
 \<and> fst (HeaderComponent_isVisible static_browser header0 (start two_logos_page)) = Inr False"
  by (simp add: HeaderComponent_isVisible_def catch_def loc_isVisible_def lookup_def
      await_def throw_def static_browser_def start_def two_logos_page_def)

section \<open>Text getters\<close>

lemma getter_run:
  "fst (await (loc_count B l) (\<lambda>n.
          if n > 0 then await (loc_textContent B l) (\<lambda>t. ret (Some t)) else ret None) w)
     = (case matches B (doc w) l of
          [] \<Rightarrow> Inr None
        | [e] \<Rightarrow> Inr (Some (el_text e))
        | _ \<Rightarrow> Inl StrictModeViolation)"
  by (simp add: loc_count_def loc_textContent_def strict_def lookup_def await_def ret_def
      throw_def split: list.splits)

lemma getter_quiet:
  "doc (snd (await (loc_count B l) (\<lambda>n.
          if n > 0 then await (loc_textContent B l) (\<lambda>t. ret (Some t)) else ret None) w))
     = doc w
 \<and> actions (snd (await (loc_count B l) (\<lambda>n.
          if n > 0 then await (loc_textContent B l) (\<lambda>t. ret (Some t)) else ret None) w))
     = actions w"
  by (simp add: loc_count_def loc_textContent_def strict_def lookup_def await_def ret_def
      throw_def split: list.splits)

text \<open>
  C10 (as amended). \<open>getCopyrightText\<close>, \<open>getProductTitle\<close>, \<open>getErrorMessage\<close> and
  \<open>getWelcomeMessage\<close> (and likewise \<open>getProductPrice\<close> and \<open>getProductDescription\<close>) return
  \<open>null\<close> exactly when their locator matches no element, and the text content of the element
  when it matches exactly one; when it matches several, the framework's \<open>textContent\<close> raises
  a strictness violation, which the getter passes on. They never raise on absence, carry out
  no action and leave the document as it is.
\<close>

theorem text_getters_result:
  fixes B :: "'s browser" and w :: "'s world"
  shows
  "fst (FooterComponent_getCopyrightText B f w)
     = (case matches B (doc w) (copyrightText f) of
          [] \<Rightarrow> Inr None
        | [e] \<Rightarrow> Inr (Some (el_text e))
        | _ \<Rightarrow> Inl StrictModeViolation)
 \<and> fst (ProductPage_getProductTitle B p w)
     = (case matches B (doc w) (productTitle p) of
          [] \<Rightarrow> Inr None
        | [e] \<Rightarrow> Inr (Some (el_text e))
        | _ \<Rightarrow> Inl StrictModeViolation)
 \<and> fst (LoginPage_getErrorMessage B lp w)
     = (case matches B (doc w) (errorMessage lp) of
          [] \<Rightarrow> Inr None
        | [e] \<Rightarrow> Inr (Some (el_text e))
        | _ \<Rightarrow> Inl StrictModeViolation)
 \<and> fst (DashboardPage_getWelcomeMessage B d w)
     = (case matches B (doc w) (welcomeMessage d) of
          [] \<Rightarrow> Inr None
        | [e] \<Rightarrow> Inr (Some (el_text e))
        | _ \<Rightarrow> Inl StrictModeViolation)
 \<and> fst (ProductPage_getProductPrice B p w)
     = (case matches B (doc w) (productPrice p) of
          [] \<Rightarrow> Inr None
        | [e] \<Rightarrow> Inr (Some (el_text e))
        | _ \<Rightarrow> Inl StrictModeViolation)
 \<and> fst (ProductPage_getProductDescription B p w)
     = (case matches B (doc w) (productDescription p) of
          [] \<Rightarrow> Inr None
        | [e] \<Rightarrow> Inr (Some (el_text e))
        | _ \<Rightarrow> Inl StrictModeViolation)
 \<and> doc (snd (FooterComponent_getCopyrightText B f w)) = doc w
 \<and> doc (snd (ProductPage_getProductTitle B p w)) = doc w
 \<and> doc (snd (ProductPage_getProductPrice B p w)) = doc w
 \<and> doc (snd (ProductPage_getProductDescription B p w)) = doc w
 \<and> doc (snd (LoginPage_getErrorMessage B lp w)) = doc w
 \<and> doc (snd (DashboardPage_getWelcomeMessage B d w)) = doc w
 \<and> actions (snd (FooterComponent_getCopyrightText B f w)) = actions w
 \<and> actions (snd (ProductPage_getProductTitle B p w)) = actions w
 \<and> actions (snd (ProductPage_getProductPrice B p w)) = actions w
 \<and> actions (snd (ProductPage_getProductDescription B p w)) = actions w
 \<and> actions (snd (LoginPage_getErrorMessage B lp w)) = actions w
 \<and> actions (snd (DashboardPage_getWelcomeMessage B d w)) = actions w"
  unfolding FooterComponent_getCopyrightText_def ProductPage_getProductTitle_def
    LoginPage_getErrorMessage_def DashboardPage_getWelcomeMessage_def
    ProductPage_getProductPrice_def ProductPage_getProductDescription_def
  by (simp only: getter_run getter_quiet simp_thms)

text \<open>
  C10 as stated fails when the locator matches more than one element: with two title
  elements on the page \<open>getProductTitle\<close> raises instead of returning a text.
\<close>

theorem two_titles_counterexample:
  "length (matches static_browser (doc (start two_titles_page)) (productTitle product0)) = 2
 \<and> fst (ProductPage_getProductTitle static_browser product0 (start two_titles_page))
     = Inl StrictModeViolation"
  by (simp add: ProductPage_getProductTitle_def loc_count_def loc_textContent_def strict_def
      lookup_def await_def ret_def throw_def static_browser_def start_def two_titles_page_def)

section \<open>Construction\<close>

text \<open>
  Each constructor returns the same object in every world and changes the world only in the
  record of created objects.
\<close>

lemma new_HeaderComponent_run:
  "\<exists>h. \<forall>w :: 's world. new_HeaderComponent pg w
           = (Inr h, w\<lparr>instances := instances w @ [''HeaderComponent'']\<rparr>)"
  by (simp add: new_HeaderComponent_def HeaderComponent_constructor_def alloc_def await_def
      ret_def)

lemma new_FooterComponent_run:
  "\<exists>f. \<forall>w :: 's world. new_FooterComponent pg w
           = (Inr f, w\<lparr>instances := instances w @ [''FooterComponent'']\<rparr>)"
  by (simp add: new_FooterComponent_def FooterComponent_constructor_def alloc_def await_def
      ret_def)

lemma BasePage_constructor_run:
  "\<exists>b. header b \<noteq> None \<and> footer b \<noteq> None \<and>
       (\<forall>w :: 's world. BasePage_constructor pg w
           = (Inr b, w\<lparr>instances := instances w @ [''HeaderComponent'', ''FooterComponent'']\<rparr>))"
proof -
  obtain h where h: "\<And>w :: 's world. new_HeaderComponent pg w
      = (Inr h, w\<lparr>instances := instances w @ [''HeaderComponent'']\<rparr>)"
    using new_HeaderComponent_run by blast
  obtain f where f: "\<And>w :: 's world. new_FooterComponent pg w
      = (Inr f, w\<lparr>instances := instances w @ [''FooterComponent'']\<rparr>)"
    using new_FooterComponent_run by blast
  let ?b = "\<lparr> BasePage.page = pg, header = Some h, footer = Some f \<rparr>"
  have "BasePage_constructor pg w
      = (Inr ?b, w\<lparr>instances := instances w @ [''HeaderComponent'', ''FooterComponent'']\<rparr>)"
    for w :: "'s world"
    by (simp add: BasePage_constructor_def await_def h f ret_def)
  then show ?thesis by (intro exI [of _ ?b]) simp
qed

lemma new_BasePage_run:
  "\<exists>b. header b \<noteq> None \<and> footer b \<noteq> None \<and>
       (\<forall>w :: 's world. new_BasePage pg w
           = (Inr b, w\<lparr>instances := instances w
                          @ [''BasePage'', ''HeaderComponent'', ''FooterComponent'']\<rparr>))"
proof -
  obtain b where b: "header b \<noteq> None" "footer b \<noteq> None"
    "\<And>w :: 's world. BasePage_constructor pg w
      = (Inr b, w\<lparr>instances := instances w @ [''HeaderComponent'', ''FooterComponent'']\<rparr>)"
    using BasePage_constructor_run by blast
  have "new_BasePage pg w = (Inr b, w\<lparr>instances := instances w
          @ [''BasePage'', ''HeaderComponent'', ''FooterComponent'']\<rparr>)" for w :: "'s world"
    by (simp add: new_BasePage_def alloc_def await_def b)
  then show ?thesis using b by blast
qed

lemma new_DashboardPage_run:
  "\<exists>d. header d \<noteq> None \<and> footer d \<noteq> None \<and>
       (\<forall>w :: 's world. new_DashboardPage pg w
           = (Inr d, w\<lparr>instances := instances w
                          @ [''DashboardPage'', ''HeaderComponent'', ''FooterComponent'']\<rparr>))"
proof -
  obtain b where b: "header b \<noteq> None" "footer b \<noteq> None"
    "\<And>w :: 's world. BasePage_constructor pg w
      = (Inr b, w\<lparr>instances := instances w @ [''HeaderComponent'', ''FooterComponent'']\<rparr>)"
    using BasePage_constructor_run by blast
  obtain d where d: "\<And>w :: 's world. DashboardPage_constructor pg w
      = (Inr (BasePage.extend b d),
         w\<lparr>instances := instances w @ [''HeaderComponent'', ''FooterComponent'']\<rparr>)"
    by (simp add: DashboardPage_constructor_def await_def b ret_def)
  have "new_DashboardPage pg w = (Inr (BasePage.extend b d), w\<lparr>instances := instances w
          @ [''DashboardPage'', ''HeaderComponent'', ''FooterComponent'']\<rparr>)" for w :: "'s world"
    by (simp add: new_DashboardPage_def alloc_def await_def d)
  moreover have "header (BasePage.extend b d) \<noteq> None" "footer (BasePage.extend b d) \<noteq> None"
    using b by (simp_all add: BasePage.defs)
  ultimately show ?thesis by blast
qed

lemma new_ProductPage_run:
  "\<exists>p. header p \<noteq> None \<and> footer p \<noteq> None \<and>
       (\<forall>w :: 's world. new_ProductPage pg w
           = (Inr p, w\<lparr>instances := instances w
                          @ [''ProductPage'', ''HeaderComponent'', ''FooterComponent'']\<rparr>))"
proof -
  obtain b where b: "header b \<noteq> None" "footer b \<noteq> None"
    "\<And>w :: 's world. BasePage_constructor pg w
      = (Inr b, w\<lparr>instances := instances w @ [''HeaderComponent'', ''FooterComponent'']\<rparr>)"
    using BasePage_constructor_run by blast
  obtain d where d: "\<And>w :: 's world. ProductPage_constructor pg w
      = (Inr (BasePage.extend b d),
         w\<lparr>instances := instances w @ [''HeaderComponent'', ''FooterComponent'']\<rparr>)"
    by (simp add: ProductPage_constructor_def await_def b ret_def)
  have "new_ProductPage pg w = (Inr (BasePage.extend b d), w\<lparr>instances := instances w
          @ [''ProductPage'', ''HeaderComponent'', ''FooterComponent'']\<rparr>)" for w :: "'s world"
    by (simp add: new_ProductPage_def alloc_def await_def d)
  moreover have "header (BasePage.extend b d) \<noteq> None" "footer (BasePage.extend b d) \<noteq> None"
    using b by (simp_all add: BasePage.defs)
  ultimately show ?thesis by blast
qed

lemma new_LoginPage_run:
  "\<exists>l. \<forall>w :: 's world. new_LoginPage pg w
           = (Inr l, w\<lparr>instances := instances w @ [''LoginPage'']\<rparr>)"
  by (simp add: new_LoginPage_def LoginPage_constructor_def alloc_def await_def ret_def)

text \<open>
  C2. Right after construction the fields \<open>header\<close> and \<open>footer\<close> of a \<open>BasePage\<close>, a
  \<open>DashboardPage\<close> and a \<open>ProductPage\<close> are not \<open>null\<close>, and constructing the page has created
  exactly one \<open>HeaderComponent\<close> and one \<open>FooterComponent\<close> besides the page itself.
\<close>

theorem page_objects_own_header_and_footer:
  fixes w :: "'s world"
  shows
  "(\<exists>b w'. new_BasePage pg w = (Inr b, w') \<and> header b \<noteq> None \<and> footer b \<noteq> None
       \<and> instances w' = instances w @ [''BasePage'', ''HeaderComponent'', ''FooterComponent''])
 \<and> (\<exists>d w'. new_DashboardPage pg w = (Inr d, w') \<and> header d \<noteq> None \<and> footer d \<noteq> None
       \<and> instances w' = instances w @ [''DashboardPage'', ''HeaderComponent'', ''FooterComponent''])
 \<and> (\<exists>p w'. new_ProductPage pg w = (Inr p, w') \<and> header p \<noteq> None \<and> footer p \<noteq> None
       \<and> instances w' = instances w @ [''ProductPage'', ''HeaderComponent'', ''FooterComponent''])"
proof (intro conjI)
  obtain b where "header b \<noteq> None" "footer b \<noteq> None"
    "\<And>v :: 's world. new_BasePage pg v = (Inr b, v\<lparr>instances := instances v
        @ [''BasePage'', ''HeaderComponent'', ''FooterComponent'']\<rparr>)"
    using new_BasePage_run by blast
  then show "\<exists>b w'. new_BasePage pg w = (Inr b, w') \<and> header b \<noteq> None \<and> footer b \<noteq> None
       \<and> instances w' = instances w @ [''BasePage'', ''HeaderComponent'', ''FooterComponent'']"
    by (intro exI [of _ b] exI [of _ "w\<lparr>instances := instances w
        @ [''BasePage'', ''HeaderComponent'', ''FooterComponent'']\<rparr>"]) simp
  obtain d where "header d \<noteq> None" "footer d \<noteq> None"
    "\<And>v :: 's world. new_DashboardPage pg v = (Inr d, v\<lparr>instances := instances v
        @ [''DashboardPage'', ''HeaderComponent'', ''FooterComponent'']\<rparr>)"
    using new_DashboardPage_run by blast
  then show "\<exists>d w'. new_DashboardPage pg w = (Inr d, w') \<and> header d \<noteq> None \<and> footer d \<noteq> None
       \<and> instances w' = instances w @ [''DashboardPage'', ''HeaderComponent'', ''FooterComponent'']"
    by (intro exI [of _ d] exI [of _ "w\<lparr>instances := instances w
        @ [''DashboardPage'', ''HeaderComponent'', ''FooterComponent'']\<rparr>"]) simp
  obtain p where "header p \<noteq> None" "footer p \<noteq> None"
    "\<And>v :: 's world. new_ProductPage pg v = (Inr p, v\<lparr>instances := instances v
        @ [''ProductPage'', ''HeaderComponent'', ''FooterComponent'']\<rparr>)"
    using new_ProductPage_run by blast
  then show "\<exists>p w'. new_ProductPage pg w = (Inr p, w') \<and> header p \<noteq> None \<and> footer p \<noteq> None
       \<and> instances w' = instances w @ [''ProductPage'', ''HeaderComponent'', ''FooterComponent'']"
    by (intro exI [of _ p] exI [of _ "w\<lparr>instances := instances w
        @ [''ProductPage'', ''HeaderComponent'', ''FooterComponent'']\<rparr>"]) simp
qed

section \<open>Lazy resolution\<close>

lemma quiet_construction:
  assumes "\<exists>x. \<forall>w :: 's world. new w = (Inr x, w\<lparr>instances := instances w @ cs\<rparr>)"
  shows "\<exists>x. \<forall>w :: 's world. \<exists>w'. new w = (Inr x, w')
           \<and> resolved w' = resolved w \<and> doc w' = doc w \<and> actions w' = actions w"
proof -
  from assms obtain x
    where "\<And>w :: 's world. new w = (Inr x, w\<lparr>instances := instances w @ cs\<rparr>)" by blast
  then have "\<forall>w :: 's world. \<exists>w'. new w = (Inr x, w')
           \<and> resolved w' = resolved w \<and> doc w' = doc w \<and> actions w' = actions w"
    by simp
  then show ?thesis ..
qed

lemma world_update_order:
  "w\<lparr>instances := i, doc := d, actions := a\<rparr> = w\<lparr>doc := d, actions := a, instances := i\<rparr>"
  by (cases w) simp

lemma construct_then_navigate:
  assumes "\<exists>x. \<forall>w :: 's world. new w = (Inr x, w\<lparr>instances := instances w @ cs\<rparr>)"
  shows "fst (await new (\<lambda>x. await (page_goto B url) (\<lambda>_. op x)) w)
       = fst (await (page_goto B url) (\<lambda>_. await new op) w)"
proof -
  from assms obtain x
    where "\<And>w :: 's world. new w = (Inr x, w\<lparr>instances := instances w @ cs\<rparr>)" by blast
  then show ?thesis
    by (simp add: await_def page_goto_def perform_def world_update_order split: option.splits)
qed

lemma new_BasePage_run': 
  "\<exists>b. \<forall>w :: 's world. new_BasePage pg w
           = (Inr b, w\<lparr>instances := instances w
                          @ [''BasePage'', ''HeaderComponent'', ''FooterComponent'']\<rparr>)"
  using new_BasePage_run [of pg] by blast

lemma new_DashboardPage_run': 
  "\<exists>b. \<forall>w :: 's world. new_DashboardPage pg w
           = (Inr b, w\<lparr>instances := instances w
                          @ [''DashboardPage'', ''HeaderComponent'', ''FooterComponent'']\<rparr>)"
  using new_DashboardPage_run [of pg] by blast

lemma new_ProductPage_run': 
  "\<exists>b. \<forall>w :: 's world. new_ProductPage pg w
           = (Inr b, w\<lparr>instances := instances w
                          @ [''ProductPage'', ''HeaderComponent'', ''FooterComponent'']\<rparr>)"
  using new_ProductPage_run [of pg] by blast

text \<open>
  C6. Constructing a \<open>HeaderComponent\<close>, a \<open>FooterComponent\<close>, a \<open>BasePage\<close>, a
  \<open>DashboardPage\<close>, a \<open>ProductPage\<close> or a \<open>LoginPage\<close> always succeeds, resolves no locator,
  and neither reads nor changes the document: the object built is the same whatever the page
  shows. Resolution is left to the operations. Hence an object built before a navigation
  serves any later operation exactly as an object built after the navigation would.
\<close>

theorem construction_resolves_no_locator:
  fixes B :: "'s browser" and v :: "'s world"
  shows
  "(\<exists>x. \<forall>w :: 's world. \<exists>w'. new_HeaderComponent pg w = (Inr x, w')
       \<and> resolved w' = resolved w \<and> doc w' = doc w \<and> actions w' = actions w)
 \<and> (\<exists>x. \<forall>w :: 's world. \<exists>w'. new_FooterComponent pg w = (Inr x, w')
       \<and> resolved w' = resolved w \<and> doc w' = doc w \<and> actions w' = actions w)
 \<and> (\<exists>x. \<forall>w :: 's world. \<exists>w'. new_BasePage pg w = (Inr x, w')
       \<and> resolved w' = resolved w \<and> doc w' = doc w \<and> actions w' = actions w)
 \<and> (\<exists>x. \<forall>w :: 's world. \<exists>w'. new_DashboardPage pg w = (Inr x, w')
       \<and> resolved w' = resolved w \<and> doc w' = doc w \<and> actions w' = actions w)
 \<and> (\<exists>x. \<forall>w :: 's world. \<exists>w'. new_ProductPage pg w = (Inr x, w')
       \<and> resolved w' = resolved w \<and> doc w' = doc w \<and> actions w' = actions w)
 \<and> (\<exists>x. \<forall>w :: 's world. \<exists>w'. new_LoginPage pg w = (Inr x, w')
       \<and> resolved w' = resolved w \<and> doc w' = doc w \<and> actions w' = actions w)
 \<and> fst (await (new_HeaderComponent pg) (\<lambda>x. await (page_goto B url) (\<lambda>_. op1 x)) v)
     = fst (await (page_goto B url) (\<lambda>_. await (new_HeaderComponent pg) op1) v)
 \<and> fst (await (new_FooterComponent pg) (\<lambda>x. await (page_goto B url) (\<lambda>_. op2 x)) v)
     = fst (await (page_goto B url) (\<lambda>_. await (new_FooterComponent pg) op2) v)
 \<and> fst (await (new_BasePage pg) (\<lambda>x. await (page_goto B url) (\<lambda>_. op3 x)) v)
     = fst (await (page_goto B url) (\<lambda>_. await (new_BasePage pg) op3) v)
 \<and> fst (await (new_DashboardPage pg) (\<lambda>x. await (page_goto B url) (\<lambda>_. op4 x)) v)
     = fst (await (page_goto B url) (\<lambda>_. await (new_DashboardPage pg) op4) v)
 \<and> fst (await (new_ProductPage pg) (\<lambda>x. await (page_goto B url) (\<lambda>_. op5 x)) v)
     = fst (await (page_goto B url) (\<lambda>_. await (new_ProductPage pg) op5) v)
 \<and> fst (await (new_LoginPage pg) (\<lambda>x. await (page_goto B url) (\<lambda>_. op6 x)) v)
     = fst (await (page_goto B url) (\<lambda>_. await (new_LoginPage pg) op6) v)"
  by (intro conjI quiet_construction construct_then_navigate)
    (rule new_HeaderComponent_run new_FooterComponent_run new_BasePage_run'
      new_DashboardPage_run' new_ProductPage_run' new_LoginPage_run)+


section \<open>Operations as sequences of steps\<close>

lemma realises_guarded:
  "realises B (await (loc_count B g) (\<lambda>n. if n > 0 then strict B l (\<lambda>e. perform B a) else ret ()))
     (\<lambda>d. if matches B d g \<noteq> [] then attempt B l a d else Skipped)"
  by (simp add: realises_def attempt_def loc_count_def strict_def lookup_def perform_def
      await_def ret_def throw_def split: list.splits option.splits)

lemma realises_first_match:
  "realises B (first_match B (Locator sel) (\<lambda>e. perform B a)) (shortcut B sel a)"
  by (simp add: realises_def shortcut_def first_match_def lookup_def perform_def
      await_def ret_def throw_def split: list.splits option.splits)

lemma plays_single:
  assumes "realises B m step"
  shows "plays m (carry B [step])"
  unfolding plays_def
proof
  fix w
  from assms have "case step (doc w) of
      Skipped \<Rightarrow>
        fst (m w) = Inr () \<and> actions (snd (m w)) = actions w \<and> doc (snd (m w)) = doc w
    | Applied a \<Rightarrow>
        fst (m w) = Inr () \<and> actions (snd (m w)) = actions w @ [a]
          \<and> doc (snd (m w)) = react B (doc w) a
    | Failed e \<Rightarrow>
        fst (m w) = Inl e \<and> actions (snd (m w)) = actions w \<and> doc (snd (m w)) = doc w"
    unfolding realises_def by (rule allE)
  then show "fst (m w) = (case fst (carry B [step] (doc w)) of None \<Rightarrow> Inr () | Some e \<Rightarrow> Inl e)
      \<and> actions (snd (m w)) = actions w @ fst (snd (carry B [step] (doc w)))
      \<and> doc (snd (m w)) = snd (snd (carry B [step] (doc w)))"
    by (cases "step (doc w)") simp_all
qed

lemma plays_cons:
  assumes m: "realises B m step" and rest: "plays rest (carry B steps)"
  shows "plays (await m (\<lambda>_. rest)) (carry B (step # steps))"
  unfolding plays_def
proof
  fix w
  obtain r w1 where mw: "m w = (r, w1)" by (cases "m w")
  from m have "case step (doc w) of
      Skipped \<Rightarrow>
        fst (m w) = Inr () \<and> actions (snd (m w)) = actions w \<and> doc (snd (m w)) = doc w
    | Applied a \<Rightarrow>
        fst (m w) = Inr () \<and> actions (snd (m w)) = actions w @ [a]
          \<and> doc (snd (m w)) = react B (doc w) a
    | Failed e \<Rightarrow>
        fst (m w) = Inl e \<and> actions (snd (m w)) = actions w \<and> doc (snd (m w)) = doc w"
    unfolding realises_def by (rule allE)
  then have st: "case step (doc w) of
      Skipped \<Rightarrow> r = Inr () \<and> actions w1 = actions w \<and> doc w1 = doc w
    | Applied a \<Rightarrow> r = Inr () \<and> actions w1 = actions w @ [a] \<and> doc w1 = react B (doc w) a
    | Failed e \<Rightarrow> r = Inl e \<and> actions w1 = actions w \<and> doc w1 = doc w"
    by (cases "step (doc w)") (simp_all add: mw)
  from rest have re: "fst (rest w1)
        = (case fst (carry B steps (doc w1)) of None \<Rightarrow> Inr () | Some e \<Rightarrow> Inl e)
      \<and> actions (snd (rest w1)) = actions w1 @ fst (snd (carry B steps (doc w1)))
      \<and> doc (snd (rest w1)) = snd (snd (carry B steps (doc w1)))"
    unfolding plays_def by (rule allE)
  show "fst (await m (\<lambda>_. rest) w)
        = (case fst (carry B (step # steps) (doc w)) of None \<Rightarrow> Inr () | Some e \<Rightarrow> Inl e)
      \<and> actions (snd (await m (\<lambda>_. rest) w))
        = actions w @ fst (snd (carry B (step # steps) (doc w)))
      \<and> doc (snd (await m (\<lambda>_. rest) w)) = snd (snd (carry B (step # steps) (doc w)))"
  proof (cases "step (doc w)")
    case Skipped
    then show ?thesis using st re mw by (simp add: await_def)
  next
    case (Applied a)
    then show ?thesis using st re mw by (simp add: await_def split: prod.splits)
  next
    case (Failed e)
    then show ?thesis using st mw by (simp add: await_def)
  qed
qed

lemma plays_D:
  assumes "plays m run"
  shows "fst (m w) = (case fst (run (doc w)) of None \<Rightarrow> Inr () | Some e \<Rightarrow> Inl e)
       \<and> actions (snd (m w)) = actions w @ fst (snd (run (doc w)))
       \<and> doc (snd (m w)) = snd (snd (run (doc w)))"
  using assms unfolding plays_def by (rule allE)


section \<open>Strategy base classes\<close>

lemma realises_page_fill:
  "realises B (page_fill B sel v) (shortcut B sel (Fill (Locator sel) v))"
  unfolding page_fill_def by (rule realises_first_match)

lemma realises_page_click:
  "realises B (page_click B sel) (shortcut B sel (Click (Locator sel)))"
  unfolding page_click_def by (rule realises_first_match)

lemma plays_password_login:
  "plays (authenticate B (UsernamePasswordAuth username password) pg)
     (password_login B username password)"
proof -
  have "plays (authenticate B (UsernamePasswordAuth username password) pg)
     (carry B [shortcut B ''#username'' (Fill (Locator ''#username'') username),
               shortcut B ''#password'' (Fill (Locator ''#password'') password),
               shortcut B ''#login'' (Click (Locator ''#login''))])"
    unfolding authenticate.simps
    by (intro plays_cons plays_single realises_page_fill realises_page_click)
  then show ?thesis
    unfolding plays_def password_login_def .
qed

lemma oauth_run:
  "fst (authenticate B (OAuthAuth provider) pg w)
     = (case parse_selector B (''#oauth-'' @ provider) of
          Some err \<Rightarrow> Inl err
        | None \<Rightarrow>
            (case matches B (doc w) (Locator (''#oauth-'' @ provider)) of
               [] \<Rightarrow> Inl TimeoutError
             | e # _ \<Rightarrow>
                 (case refuses B (doc w) (Click (Locator (''#oauth-'' @ provider))) of
                    None \<Rightarrow> Inr ()
                  | Some err \<Rightarrow> Inl err)))"
  by (simp add: parsed_def page_click_def first_match_def lookup_def perform_def await_def
      throw_def split: option.splits list.splits)

lemma component_isVisible_run:
  "fst (loc_isVisible B l w)
     = (case matches B (doc w) l of
          [] \<Rightarrow> Inr False
        | [e] \<Rightarrow> Inr (el_visible e)
        | _ \<Rightarrow> Inl StrictModeViolation)"
  by (simp add: loc_isVisible_def lookup_def await_def ret_def throw_def split: list.splits)

lemma api_send_run:
  "fst (send B (ApiNotificationService request) message w)
     = (case refuses B (doc w) (Post ''/api/notify'' (JObj [(''message'', JStr message)])) of
          None \<Rightarrow> Inr ()
        | Some err \<Rightarrow> Inl err)
 \<and> console (snd (send B (ApiNotificationService request) message w))
     = console w
       @ (case refuses B (doc w) (Post ''/api/notify'' (JObj [(''message'', JStr message)])) of
            None \<Rightarrow> [''API notification sent.'']
          | Some err \<Rightarrow> [])"
  by (simp add: request_post_def perform_def console_log_def await_def split: option.splits)

text \<open>
  C9. The base-class methods \<open>AuthStrategy.authenticate\<close>, \<open>PageComponent.isVisible\<close> and
  \<open>NotificationService.send\<close> raise their "not implemented" error for every argument and in
  every world, changing nothing. Every subclass overrides the method, so a call on an
  instance of the subclass runs the subclass's own body: \<open>UsernamePasswordAuth\<close> fills in the
  user name and the password and clicks the login button, stopping at the first of the three
  that the framework cannot carry out; \<open>OAuthAuth\<close> clicks the provider's button, or raises what
  the framework raises for a malformed selector, a missing button or a refused click;
  \<open>Header\<close> and \<open>Footer\<close> answer the framework's visibility check of their region;
  \<open>ConsoleNotificationService\<close> writes the message to the console and returns;
  \<open>ApiNotificationService\<close> posts the message and then writes to the console, or raises what the
  request raises.
\<close>

theorem base_strategy_methods_not_implemented:
  fixes B :: "'s browser" and w :: "'s world"
  shows
  "authenticate B AuthStrategy pg w
     = (Inl (Error ''Authentication strategy not implemented''), w)
 \<and> PageComponent_isVisible B (PageComponent pg) w
     = (Inl (Error ''Visibility check not implemented''), w)
 \<and> send B NotificationService message w
     = (Inl (Error ''Notification service not implemented''), w)
 \<and> fst (authenticate B (UsernamePasswordAuth username password) pg w)
     = (case fst (password_login B username password (doc w)) of
          None \<Rightarrow> Inr ()
        | Some err \<Rightarrow> Inl err)
 \<and> actions (snd (authenticate B (UsernamePasswordAuth username password) pg w))
     = actions w @ fst (snd (password_login B username password (doc w)))
 \<and> fst (authenticate B (OAuthAuth provider) pg w)
     = (case parse_selector B (''#oauth-'' @ provider) of
          Some err \<Rightarrow> Inl err
        | None \<Rightarrow>
            (case matches B (doc w) (Locator (''#oauth-'' @ provider)) of
               [] \<Rightarrow> Inl TimeoutError
             | e # _ \<Rightarrow>
                 (case refuses B (doc w) (Click (Locator (''#oauth-'' @ provider))) of
                    None \<Rightarrow> Inr ()
                  | Some err \<Rightarrow> Inl err)))
 \<and> fst (PageComponent_isVisible B (Header pg) w)
     = (case matches B (doc w) (Locator ''header'') of
          [] \<Rightarrow> Inr False
        | [e] \<Rightarrow> Inr (el_visible e)
        | _ \<Rightarrow> Inl StrictModeViolation)
 \<and> fst (PageComponent_isVisible B (Footer pg) w)
     = (case matches B (doc w) (Locator ''footer'') of
          [] \<Rightarrow> Inr False
        | [e] \<Rightarrow> Inr (el_visible e)
        | _ \<Rightarrow> Inl StrictModeViolation)
 \<and> send B ConsoleNotificationService message w
     = (Inr (), w\<lparr>console := console w @ [''NOTIFICATION: '' @ message]\<rparr>)
 \<and> fst (send B (ApiNotificationService request) message w)
     = (case refuses B (doc w) (Post ''/api/notify'' (JObj [(''message'', JStr message)])) of
          None \<Rightarrow> Inr ()
        | Some err \<Rightarrow> Inl err)
 \<and> console (snd (send B (ApiNotificationService request) message w))
     = console w
       @ (case refuses B (doc w) (Post ''/api/notify'' (JObj [(''message'', JStr message)])) of
            None \<Rightarrow> [''API notification sent.'']
          | Some err \<Rightarrow> [])"
proof (intro conjI)
  show "authenticate B AuthStrategy pg w
     = (Inl (Error ''Authentication strategy not implemented''), w)"
    by (simp add: throw_def)
  show "PageComponent_isVisible B (PageComponent pg) w
     = (Inl (Error ''Visibility check not implemented''), w)"
    by (simp add: throw_def)
  show "send B NotificationService message w
     = (Inl (Error ''Notification service not implemented''), w)"
    by (simp add: throw_def)
  show "fst (authenticate B (UsernamePasswordAuth username password) pg w)
     = (case fst (password_login B username password (doc w)) of
          None \<Rightarrow> Inr ()
        | Some err \<Rightarrow> Inl err)"
    using plays_D [OF plays_password_login, where w = w] by simp
  show "actions (snd (authenticate B (UsernamePasswordAuth username password) pg w))
     = actions w @ fst (snd (password_login B username password (doc w)))"
    using plays_D [OF plays_password_login, where w = w] by simp
  show "fst (authenticate B (OAuthAuth provider) pg w)
     = (case parse_selector B (''#oauth-'' @ provider) of
          Some err \<Rightarrow> Inl err
        | None \<Rightarrow>
            (case matches B (doc w) (Locator (''#oauth-'' @ provider)) of
               [] \<Rightarrow> Inl TimeoutError
             | e # _ \<Rightarrow>
                 (case refuses B (doc w) (Click (Locator (''#oauth-'' @ provider))) of
                    None \<Rightarrow> Inr ()
                  | Some err \<Rightarrow> Inl err)))"
    by (rule oauth_run)
  show "fst (PageComponent_isVisible B (Header pg) w)
     = (case matches B (doc w) (Locator ''header'') of
          [] \<Rightarrow> Inr False
        | [e] \<Rightarrow> Inr (el_visible e)
        | _ \<Rightarrow> Inl StrictModeViolation)"
    by (simp add: component_isVisible_run)
  show "fst (PageComponent_isVisible B (Footer pg) w)
     = (case matches B (doc w) (Locator ''footer'') of
          [] \<Rightarrow> Inr False
        | [e] \<Rightarrow> Inr (el_visible e)
        | _ \<Rightarrow> Inl StrictModeViolation)"
    by (simp add: component_isVisible_run)
  show "send B ConsoleNotificationService message w
     = (Inr (), w\<lparr>console := console w @ [''NOTIFICATION: '' @ message]\<rparr>)"
    by (simp add: console_log_def)
  show "fst (send B (ApiNotificationService request) message w)
     = (case refuses B (doc w) (Post ''/api/notify'' (JObj [(''message'', JStr message)])) of
          None \<Rightarrow> Inr ()
        | Some err \<Rightarrow> Inl err)"
    using api_send_run [where w = w] by simp
  show "console (snd (send B (ApiNotificationService request) message w))
     = console w
       @ (case refuses B (doc w) (Post ''/api/notify'' (JObj [(''message'', JStr message)])) of
            None \<Rightarrow> [''API notification sent.'']
          | Some err \<Rightarrow> [])"
    using api_send_run [where w = w] by simp
qed

section \<open>The response of the mocked route\<close>

lemma map_of_set_property:
  "map_of (set_property kv obj) = (map_of obj)(fst kv \<mapsto> snd kv)"
  by (simp add: set_property_def update_conv')

lemma map_of_fold_set_property:
  "distinct (map fst fs) \<Longrightarrow> map_of (fold set_property fs obj) = map_of obj ++ map_of fs"
proof (induction fs arbitrary: obj)
  case Nil
  show ?case by simp
next
  case (Cons kv fs)
  obtain k v where kv: "kv = (k, v)" by (cases kv)
  from Cons.prems have k: "k \<notin> dom (map_of fs)" and d: "distinct (map fst fs)"
    by (auto simp: kv dom_map_of_conv_image_fst)
  have "map_of (fold set_property (kv # fs) obj) = map_of (set_property kv obj) ++ map_of fs"
    using Cons.IH [OF d, of "set_property kv obj"] by simp
  also have "\<dots> = (map_of obj)(k \<mapsto> v) ++ map_of fs"
    by (simp only: map_of_set_property kv fst_conv snd_conv)
  also have "\<dots> = (map_of obj ++ map_of fs)(k \<mapsto> v)"
    using k by (rule map_add_upd_left)
  also have "\<dots> = map_of obj ++ map_of (kv # fs)"
    by (simp add: kv)
  finally show ?case .
qed

lemma response_fields:
  assumes "distinct (map fst fs)"
  shows "map_of (set_property (''userId'', JNum (Finite 1))
                  (spread (JObj fs) (set_property (''id'', JNum (Finite 999)) []))) k
       = (if k = ''userId'' then Some (JNum (Finite 1))
          else case map_of fs k of
                 Some v \<Rightarrow> Some v
               | None \<Rightarrow> if k = ''id'' then Some (JNum (Finite 999)) else None)"
proof -
  have "map_of (set_property (''userId'', JNum (Finite 1))
                  (spread (JObj fs) (set_property (''id'', JNum (Finite 999)) [])))
      = (map_of [(''id'', JNum (Finite 999))] ++ map_of fs)(''userId'' \<mapsto> JNum (Finite 1))"
    using map_of_fold_set_property [OF assms]
    by (simp add: map_of_set_property spread_def)
  then show ?thesis
    by (simp add: map_add_def split: option.splits)
qed

text \<open>
  C7 (as amended). What the route does with a posted body is decided by what the body parses
  to. A body that does not parse makes the handler raise, and a parsed value that is not an
  object with a \<open>title\<close> property, or has a \<open>title\<close> but no \<open>body\<close> property, fails the handler's
  assertion: in these cases the route is not fulfilled. For every body that parses to an
  object with a \<open>title\<close> and a \<open>body\<close> property, the route is fulfilled with status 201 and the
  rendering of an object in which \<open>userId\<close> is 1, every other property of the posted object
  appears with its posted value, and \<open>id\<close> is 999 unless the posted object brings its own
  \<open>id\<close>; the response has no further property.
\<close>

theorem posts_route_response:
  "(JSON_parse rt (postData_text posted0) = Inl err \<longrightarrow> posts_route rt posted0 = Inl err)
 \<and> (JSON_parse rt (postData_text posted1) = Inr v1 \<and> \<not> toHaveProperty v1 ''title'' \<longrightarrow>
      posts_route rt posted1 = Inl (AssertionError ''title''))
 \<and> (JSON_parse rt (postData_text posted2) = Inr v2 \<and> toHaveProperty v2 ''title''
      \<and> \<not> toHaveProperty v2 ''body'' \<longrightarrow>
      posts_route rt posted2 = Inl (AssertionError ''body''))
 \<and> (JSON_parse rt (postData_text posted) = Inr (JObj fs) \<and> distinct (map fst fs)
      \<and> map_of fs ''title'' \<noteq> None \<and> map_of fs ''body'' \<noteq> None \<longrightarrow>
      (\<exists>r. posts_route rt posted
              = Inr \<lparr> status = 201, contentType = ''application/json'',
                      body = JSON_stringify rt (JObj r) \<rparr>
          \<and> (\<forall>k. map_of r k =
                (if k = ''userId'' then Some (JNum (Finite 1))
                 else case map_of fs k of
                        Some v \<Rightarrow> Some v
                      | None \<Rightarrow> if k = ''id'' then Some (JNum (Finite 999)) else None))))"
proof (intro conjI impI)
  assume "JSON_parse rt (postData_text posted0) = Inl err"
  then show "posts_route rt posted0 = Inl err"
    by (simp add: posts_route_def)
next
  assume "JSON_parse rt (postData_text posted1) = Inr v1 \<and> \<not> toHaveProperty v1 ''title''"
  then show "posts_route rt posted1 = Inl (AssertionError ''title'')"
    by (simp add: posts_route_def)
next
  assume "JSON_parse rt (postData_text posted2) = Inr v2 \<and> toHaveProperty v2 ''title''
      \<and> \<not> toHaveProperty v2 ''body''"
  then show "posts_route rt posted2 = Inl (AssertionError ''body'')"
    by (simp add: posts_route_def)
next
  let ?r = "set_property (''userId'', JNum (Finite 1))
              (spread (JObj fs) (set_property (''id'', JNum (Finite 999)) []))"
  assume a: "JSON_parse rt (postData_text posted) = Inr (JObj fs) \<and> distinct (map fst fs)
      \<and> map_of fs ''title'' \<noteq> None \<and> map_of fs ''body'' \<noteq> None"
  then have "posts_route rt posted
      = Inr \<lparr> status = 201, contentType = ''application/json'',
              body = JSON_stringify rt (JObj ?r) \<rparr>"
    by (auto simp: posts_route_def)
  moreover have "\<forall>k. map_of ?r k =
        (if k = ''userId'' then Some (JNum (Finite 1))
         else case map_of fs k of
                Some v \<Rightarrow> Some v
              | None \<Rightarrow> if k = ''id'' then Some (JNum (Finite 999)) else None)"
    using a response_fields by blast
  ultimately show "\<exists>r. posts_route rt posted
              = Inr \<lparr> status = 201, contentType = ''application/json'',
                      body = JSON_stringify rt (JObj r) \<rparr>
          \<and> (\<forall>k. map_of r k =
                (if k = ''userId'' then Some (JNum (Finite 1))
                 else case map_of fs k of
                        Some v \<Rightarrow> Some v
                      | None \<Rightarrow> if k = ''id'' then Some (JNum (Finite 999)) else None))"
    by blast
qed

text \<open>The four cases on the example runtime: a malformed body, no body at all, a body
  without the \<open>body\<close> property, and the body the scenario posts.\<close>

lemma example_parses:
  \<open>JSON_parse example_runtime (postData_text (Some ''{''))
     = Inl (SyntaxError ''Unexpected end of JSON input'')\<close>
  "JSON_parse example_runtime (postData_text None) = Inr (JObj [])"
  "JSON_parse example_runtime (postData_text (Some bodiless_text))
     = Inr (JObj [(''title'', JStr ''Test Post'')])"
  "JSON_parse example_runtime (postData_text (Some plain_text)) = Inr (JObj plain_post)"
  "JSON_parse example_runtime (postData_text (Some owned_text)) = Inr (JObj owned_post)"
  by (simp_all add: example_runtime_def postData_text_def plain_text_def owned_text_def
      untitled_text_def bodiless_text_def)

theorem posts_route_response_witness:
  \<open>JSON_parse example_runtime (postData_text (Some ''{''))
     = Inl (SyntaxError ''Unexpected end of JSON input'')
 \<and> posts_route example_runtime (Some ''{'') = Inl (SyntaxError ''Unexpected end of JSON input'')
 \<and> JSON_parse example_runtime (postData_text None) = Inr (JObj [])
 \<and> \<not> toHaveProperty (JObj []) ''title''
 \<and> posts_route example_runtime None = Inl (AssertionError ''title'')
 \<and> JSON_parse example_runtime (postData_text (Some bodiless_text))
     = Inr (JObj [(''title'', JStr ''Test Post'')])
 \<and> toHaveProperty (JObj [(''title'', JStr ''Test Post'')]) ''title''
 \<and> \<not> toHaveProperty (JObj [(''title'', JStr ''Test Post'')]) ''body''
 \<and> posts_route example_runtime (Some bodiless_text) = Inl (AssertionError ''body'')
 \<and> JSON_parse example_runtime (postData_text (Some plain_text)) = Inr (JObj plain_post)
 \<and> distinct (map fst plain_post)
 \<and> map_of plain_post ''title'' \<noteq> None
 \<and> map_of plain_post ''body'' \<noteq> None
 \<and> (\<exists>r. posts_route example_runtime (Some plain_text)
            = Inr \<lparr> status = 201, contentType = ''application/json'',
                    body = JSON_stringify example_runtime (JObj r) \<rparr>
        \<and> (\<forall>k. map_of r k =
              (if k = ''userId'' then Some (JNum (Finite 1))
               else case map_of plain_post k of
                      Some v \<Rightarrow> Some v
                    | None \<Rightarrow> if k = ''id'' then Some (JNum (Finite 999)) else None)))\<close>
proof -
  have p: "distinct (map fst plain_post)" "map_of plain_post ''title'' \<noteq> None"
    "map_of plain_post ''body'' \<noteq> None"
    by (simp_all add: plain_post_def)
  show ?thesis
    using posts_route_response [of example_runtime \<open>Some ''{''\<close>
        "SyntaxError ''Unexpected end of JSON input''" None "JObj []"
        "Some bodiless_text" "JObj [(''title'', JStr ''Test Post'')]"
        "Some plain_text" plain_post]
    by (simp add: example_parses p)
qed

text \<open>
  C7 as stated fails for a payload that has a \<open>userId\<close>: the posted value 7 comes back as 1,
  so a field of the payload does not appear unchanged in the response.
\<close>

theorem posts_route_userId_counterexample:
  "JSON_parse example_runtime (postData_text (Some owned_text)) = Inr (JObj owned_post)
 \<and> map_of owned_post ''userId'' = Some (JNum (Finite 7))
 \<and> posts_route example_runtime (Some owned_text)
     = Inr \<lparr> status = 201, contentType = ''application/json'',
             body = JSON_stringify example_runtime
                      (JObj [(''id'', JNum (Finite 999)), (''title'', JStr ''Test Post''),
                             (''body'', JStr ''Test Body''), (''userId'', JNum (Finite 1))]) \<rparr>
 \<and> JSON_stringify example_runtime
      (JObj [(''id'', JNum (Finite 999)), (''title'', JStr ''Test Post''),
             (''body'', JStr ''Test Body''), (''userId'', JNum (Finite 1))])
     = mock_response_text"
  by (simp add: example_parses posts_route_def owned_post_def spread_def set_property_def)
    (simp add: example_runtime_def mock_response_def)


section \<open>Adding to the cart with options\<close>

lemma realises_quantity:
  "realises B (addToCartWithOptions_quantity B this opts) (quantity_step B this opts)"
proof (cases "truthy_number (quantity opts)")
  case True
  then have "quantity_step B this opts
      = (\<lambda>d. if matches B d (quantityInput this) \<noteq> []
             then attempt B (quantityInput this)
                    (FillNumber (quantityInput this) (the (quantity opts))) d
             else Skipped)"
    by (intro ext) (simp add: quantity_step_def)
  moreover have "addToCartWithOptions_quantity B this opts
      = await (loc_count B (quantityInput this)) (\<lambda>n.
          if n > 0
          then strict B (quantityInput this)
                 (\<lambda>e. perform B (FillNumber (quantityInput this) (the (quantity opts))))
          else ret ())"
    using True
    by (simp add: addToCartWithOptions_quantity_def loc_fill_number_def cong: if_cong)
  ultimately show ?thesis
    by (simp only: realises_guarded)
next
  case False
  then show ?thesis
    by (simp add: addToCartWithOptions_quantity_def quantity_step_def realises_def ret_def)
qed

lemma realises_size:
  "realises B (addToCartWithOptions_size B this opts) (size_step B this opts)"
proof (cases "truthy_string (size' opts)")
  case True
  then have "size_step B this opts
      = (\<lambda>d. if matches B d (sizeSelector this) \<noteq> []
             then attempt B (sizeSelector this)
                    (SelectOption (sizeSelector this) (the (size' opts))) d
             else Skipped)"
    by (intro ext) (simp add: size_step_def)
  moreover have "addToCartWithOptions_size B this opts
      = await (loc_count B (sizeSelector this)) (\<lambda>n.
          if n > 0
          then strict B (sizeSelector this)
                 (\<lambda>e. perform B (SelectOption (sizeSelector this) (the (size' opts))))
          else ret ())"
    using True
    by (simp add: addToCartWithOptions_size_def loc_selectOption_def cong: if_cong)
  ultimately show ?thesis
    by (simp only: realises_guarded)
next
  case False
  then show ?thesis
    by (simp add: addToCartWithOptions_size_def size_step_def realises_def ret_def)
qed

lemma realises_color:
  "realises B (addToCartWithOptions_color B this opts) (color_step B this opts)"
proof (cases "truthy_string (color opts)")
  case True
  then show ?thesis
    by (simp add: addToCartWithOptions_color_def color_step_def realises_def attempt_def
        parsed_def loc_count_def loc_click_def strict_def lookup_def perform_def
        await_def ret_def throw_def split: list.splits option.splits)
next
  case False
  then show ?thesis
    by (simp add: addToCartWithOptions_color_def color_step_def realises_def ret_def)
qed

lemma realises_cart:
  "realises B (ProductPage_addToCart B this) (cart_step B this)"
proof -
  have "cart_step B this
      = (\<lambda>d. if matches B d (addToCartBtn this) \<noteq> []
             then attempt B (addToCartBtn this) (Click (addToCartBtn this)) d
             else Skipped)"
    by (intro ext) (simp add: cart_step_def)
  moreover have "ProductPage_addToCart B this
      = await (loc_count B (addToCartBtn this)) (\<lambda>n.
          if n > 0
          then strict B (addToCartBtn this) (\<lambda>e. perform B (Click (addToCartBtn this)))
          else ret ())"
    by (simp add: ProductPage_addToCart_def loc_click_def cong: if_cong)
  ultimately show ?thesis
    by (simp only: realises_guarded)
qed

lemma plays_addToCartWithOptions:
  "plays (ProductPage_addToCartWithOptions B this opts) (expected_run B this opts)"
proof -
  have "plays (ProductPage_addToCartWithOptions B this opts)
     (carry B [quantity_step B this opts, size_step B this opts, color_step B this opts,
               cart_step B this])"
    unfolding ProductPage_addToCartWithOptions_def
    by (intro plays_cons plays_single realises_quantity realises_size realises_color
        realises_cart)
  then show ?thesis
    unfolding plays_def expected_run_def .
qed

text \<open>
  C3 (as amended). A call of \<open>addToCartWithOptions\<close> does exactly what the expected run says,
  for every browser, page and options: it returns or raises as expected, has carried out the
  expected actions in order, and leaves the expected document. In order: the quantity is
  filled in if and only if \<open>options.quantity\<close> counts as present (it is given and is neither
  zero nor not-a-number) and the quantity input is on the page; the size is selected if and
  only if \<open>options.size\<close> is a non-empty string and the size selector is on the page; the
  colour is clicked if and only if \<open>options.color\<close> is a non-empty string and both the colour
  selector and, inside it, the option for that colour are on the page. An option whose value
  is missing, zero or empty, or whose control is absent, is skipped without an error, and
  after the options the add-to-cart button is clicked if it is on the page, whichever
  options were applied. The call raises only when the framework raises on a control that is
  present: a control matched by several elements, an action the matched element refuses, or
  a colour that does not give a well-formed selector; the steps after that one are not run.
\<close>

theorem addToCartWithOptions_actions:
  fixes B :: "'s browser" and w :: "'s world"
  shows
  "fst (ProductPage_addToCartWithOptions B this opts w)
     = (case expected_error B this opts (doc w) of None \<Rightarrow> Inr () | Some err \<Rightarrow> Inl err)
 \<and> actions (snd (ProductPage_addToCartWithOptions B this opts w))
     = actions w @ expected_actions B this opts (doc w)
 \<and> doc (snd (ProductPage_addToCartWithOptions B this opts w))
     = expected_doc B this opts (doc w)"
  using plays_D [OF plays_addToCartWithOptions, where w = w]
  by (simp add: expected_error_def expected_actions_def expected_doc_def)

text \<open>
  What the expected run comes to when every control is absent: nothing is done and the call
  returns, whatever the options.
\<close>

lemma no_controls_no_actions:
  assumes "matches B (doc w) (quantityInput this) = []"
    and "matches B (doc w) (sizeSelector this) = []"
    and "matches B (doc w) (colorSelector this) = []"
    and "matches B (doc w) (addToCartBtn this) = []"
  shows "fst (ProductPage_addToCartWithOptions B this opts w) = Inr ()
       \<and> actions (snd (ProductPage_addToCartWithOptions B this opts w)) = actions w"
  using plays_D [OF plays_addToCartWithOptions, where w = w] assms
  by (simp add: expected_run_def quantity_step_def size_step_def color_step_def cart_step_def)

text \<open>
  What it comes to when only the add-to-cart button is on the page, alone and not refusing
  the click: the options are skipped and the button is clicked.
\<close>

lemma only_button_is_clicked:
  assumes "matches B (doc w) (quantityInput this) = []"
    and "matches B (doc w) (sizeSelector this) = []"
    and "matches B (doc w) (colorSelector this) = []"
    and "matches B (doc w) (addToCartBtn this) = [e]"
    and "refuses B (doc w) (Click (addToCartBtn this)) = None"
  shows "fst (ProductPage_addToCartWithOptions B this opts w) = Inr ()
       \<and> actions (snd (ProductPage_addToCartWithOptions B this opts w))
           = actions w @ [Click (addToCartBtn this)]"
  using plays_D [OF plays_addToCartWithOptions, where w = w] assms
  by (simp add: expected_run_def quantity_step_def size_step_def color_step_def cart_step_def
      attempt_def)

text \<open>A run on the shop page with all three options given.\<close>

lemma product0_fields:
  \<open>addToCartBtn product0 = GetByRole ''button'' (Some (RegExp ''add to cart|add to bag'' ''i''))\<close>
  \<open>quantityInput product0 = Locator ''input[type="number"], [data-testid="quantity"]''\<close>
  \<open>sizeSelector product0 = Locator ''select[name="size"], [data-testid="size-select"]''\<close>
  \<open>colorSelector product0 = Locator ''[data-testid="color-select"], .color-selector''\<close>
  by (simp_all add: product0_def new_ProductPage_def ProductPage_constructor_def
      BasePage_constructor_def new_HeaderComponent_def new_FooterComponent_def
      HeaderComponent_constructor_def FooterComponent_constructor_def
      alloc_def await_def ret_def BasePage.defs ProductPage.defs)

lemma shop_run:
  "ProductPage_addToCartWithOptions static_browser product0 full_order (start shop_page)
     = (Inr (),
        (start shop_page)
          \<lparr> actions := [FillNumber (quantityInput product0) (Finite 2),
                        SelectOption (sizeSelector product0) ''M'',
                        Click (colorOption product0 ''red''),
                        Click (addToCartBtn product0)],
            resolved := [quantityInput product0, quantityInput product0,
                         sizeSelector product0, sizeSelector product0,
                         colorSelector product0,
                         colorOption product0 ''red'', colorOption product0 ''red'',
                         addToCartBtn product0, addToCartBtn product0] \<rparr>)"
  by (simp add: ProductPage_addToCartWithOptions_def addToCartWithOptions_quantity_def
      addToCartWithOptions_size_def addToCartWithOptions_color_def ProductPage_addToCart_def
      truthy_number_def truthy_string_def full_order_def parsed_def
      loc_count_def loc_fill_number_def loc_selectOption_def loc_click_def strict_def lookup_def
      perform_def await_def ret_def throw_def
      static_browser_def start_def shop_page_def product0_fields colorOption_def color_css_def)

theorem addToCartWithOptions_actions_witness:
  "fst (ProductPage_addToCartWithOptions static_browser product0 full_order (start shop_page))
     = Inr ()
 \<and> expected_error static_browser product0 full_order (doc (start shop_page)) = None
 \<and> expected_actions static_browser product0 full_order (doc (start shop_page))
     = [FillNumber (quantityInput product0) (Finite 2),
        SelectOption (sizeSelector product0) ''M'',
        Click (colorOption product0 ''red''),
        Click (addToCartBtn product0)]"
proof -
  let ?run = "ProductPage_addToCartWithOptions static_browser product0 full_order
                (start shop_page)"
  have r: "fst ?run = Inr ()"
    "actions (snd ?run)
       = [FillNumber (quantityInput product0) (Finite 2),
          SelectOption (sizeSelector product0) ''M'',
          Click (colorOption product0 ''red''),
          Click (addToCartBtn product0)]"
    by (simp_all add: shop_run)
  have a0: "actions (start shop_page) = []"
    by (simp add: start_def)
  note t = addToCartWithOptions_actions [of static_browser product0 full_order
      "start shop_page"]
  from t r(1) have "expected_error static_browser product0 full_order (doc (start shop_page))
      = None"
    by (cases "expected_error static_browser product0 full_order (doc (start shop_page))")
      simp_all
  moreover from t r(2) a0
  have "expected_actions static_browser product0 full_order (doc (start shop_page))
      = [FillNumber (quantityInput product0) (Finite 2),
         SelectOption (sizeSelector product0) ''M'',
         Click (colorOption product0 ''red''),
         Click (addToCartBtn product0)]"
    by simp
  ultimately show ?thesis using r(1) by simp
qed

text \<open>
  C3 as stated fails for the options \<open>{quantity: 0, color: 'red'}\<close> on a page that has the
  quantity input and the colour selector but no red option: both values are provided and
  both controls are present, yet neither option is applied; only the add-to-cart button is
  clicked. It also fails for \<open>{quantity: 2}\<close> on a page where two elements match the quantity
  input: the value is provided and the control is present, yet the strict \<open>fill\<close> raises, the
  quantity is not applied and the add-to-cart button, though on the page, is not clicked.
\<close>

theorem zero_quantity_counterexample:
  "quantity zero_red_order = Some (Finite 0)
 \<and> matches static_browser (doc (start no_red_page)) (quantityInput product0) = [shown ''1'']
 \<and> color zero_red_order = Some ''red''
 \<and> matches static_browser (doc (start no_red_page)) (colorSelector product0) = [shown ''blue'']
 \<and> fst (ProductPage_addToCartWithOptions static_browser product0 zero_red_order
           (start no_red_page)) = Inr ()
 \<and> actions (snd (ProductPage_addToCartWithOptions static_browser product0 zero_red_order
                   (start no_red_page)))
     = [Click (addToCartBtn product0)]
 \<and> quantity two_items_order = Some (Finite 2)
 \<and> matches static_browser (doc (start twin_inputs_page)) (quantityInput product0)
     = [shown ''1'', shown ''1'']
 \<and> matches static_browser (doc (start twin_inputs_page)) (addToCartBtn product0)
     = [shown ''Add to cart'']
 \<and> fst (ProductPage_addToCartWithOptions static_browser product0 two_items_order
           (start twin_inputs_page)) = Inl StrictModeViolation
 \<and> actions (snd (ProductPage_addToCartWithOptions static_browser product0 two_items_order
                   (start twin_inputs_page))) = []"
  by (simp add: ProductPage_addToCartWithOptions_def addToCartWithOptions_quantity_def
      addToCartWithOptions_size_def addToCartWithOptions_color_def ProductPage_addToCart_def
      truthy_number_def truthy_string_def zero_red_order_def two_items_order_def parsed_def
      loc_count_def loc_fill_number_def loc_selectOption_def loc_click_def strict_def lookup_def
      perform_def await_def ret_def throw_def
      static_browser_def start_def no_red_page_def twin_inputs_page_def product0_fields
      colorOption_def color_css_def)

text \<open>
  A colour that does not give a well-formed selector: on the shop page the call raises when
  the colour option is looked up, and the add-to-cart button is not clicked.
\<close>

lemma quote_colour_raises:
  "fst (ProductPage_addToCartWithOptions static_browser product0 quote_order (start shop_page))
     = Inl (Error ''Unexpected token while parsing css selector'')
 \<and> actions (snd (ProductPage_addToCartWithOptions static_browser product0 quote_order
                   (start shop_page))) = []"
  by (simp add: ProductPage_addToCartWithOptions_def addToCartWithOptions_quantity_def
      addToCartWithOptions_size_def addToCartWithOptions_color_def ProductPage_addToCart_def
      truthy_number_def truthy_string_def quote_order_def parsed_def
      loc_count_def loc_fill_number_def loc_selectOption_def loc_click_def strict_def lookup_def
      perform_def await_def ret_def throw_def
      static_browser_def start_def shop_page_def product0_fields colorOption_def)

end
